theory Spec2Isabelle
  imports
    Complex_Main
    "HOL-Library.Multiset"
    "HOL-Library.Char_ord"
    "HOL-Library.List_Lexorder"
    "HOL-Library.Product_Lexorder"
begin

section \<open>Data model\<close>

text \<open>
  The pipeline works on pandas DataFrames. A DataFrame is modelled as the list of its
  rows, in row order. The table built by \<^verbatim>\<open>extrair_dados\<close> has the columns
  \<^verbatim>\<open>MINUTO\<close>, \<^verbatim>\<open>CD_OPR\<close> and \<^verbatim>\<open>QTD\<close>. A timestamp of minute granularity
  (\<^verbatim>\<open>pd.to_datetime(..., format='%Y-%m-%d %H:%M')\<close>) is the number of minutes since
  a fixed origin, the operator code is a string, the count is an int64 (an \<open>int\<close> in
  the model; where numpy computes in int64 the wrap-around is written out).
\<close>

record row =
  MINUTO :: int
  CD_OPR :: string
  QTD :: int

text \<open>Exceptions of the Python code that reach the model.\<close>

datatype py_error = ValueError

section \<open>loader.py: densification in \<^verbatim>\<open>extrair_dados\<close>\<close>

text \<open>\<^verbatim>\<open>Series.unique()\<close>: the distinct values, in order of first appearance.\<close>

definition unique :: "'a list \<Rightarrow> 'a list" where
  "unique xs = rev (remdups (rev xs))"

text \<open>The key of a row under \<^verbatim>\<open>set_index(['MINUTO', 'CD_OPR'])\<close>.\<close>

definition chave :: "row \<Rightarrow> int \<times> string" where
  "chave r = (MINUTO r, CD_OPR r)"

text \<open>
  \<^verbatim>\<open>extrair_dados\<close> from the typed table \<^verbatim>\<open>df\<close> onwards (the table after the
  conversions of lines 58 to 70; reading the file and parsing its lines is input/output and
  is not modelled). An empty list of parsed records returns the empty DataFrame (lines 54 to
  56). Otherwise:
  \<^item> \<^verbatim>\<open>cd_opr_unicos = df['CD_OPR'].unique()\<close>;
  \<^item> \<^verbatim>\<open>todos_minutos = pd.date_range(start=min_time, end=max_time, freq='T')\<close>: every
    minute from the smallest to the largest timestamp, both included;
  \<^item> \<^verbatim>\<open>novo_indice = pd.MultiIndex.from_product([todos_minutos, cd_opr_unicos])\<close>: the
    pairs in minute-major order;
  \<^item> \<^verbatim>\<open>df.set_index(['MINUTO', 'CD_OPR']).reindex(novo_indice)\<close>: pandas refuses to
    reindex from an index with duplicate labels and raises \<^verbatim>\<open>ValueError\<close>
    ("cannot handle a non-unique multi-index!"); the call is outside every
    \<^verbatim>\<open>try\<close> of the function, so the exception leaves \<^verbatim>\<open>extrair_dados\<close> (the
    failures of reading and of the conversions are caught and return an empty DataFrame). On
    a unique index each new label takes the row stored under it, or a missing value;
  \<^item> \<^verbatim>\<open>fillna(0).astype(int)\<close> turns the missing values into 0 (the counts pass
    through float64 on the way; the model keeps them exact);
  \<^item> \<^verbatim>\<open>reset_index()\<close> makes the two index levels columns again.
\<close>

text \<open>
  The row that \<^verbatim>\<open>reindex\<close>, \<^verbatim>\<open>fillna(0).astype(int)\<close> and \<^verbatim>\<open>reset_index\<close>
  produce for one label of the new index, from the table indexed by its keys.
\<close>

definition celula :: "row list \<Rightarrow> int \<times> string \<Rightarrow> row" where
  "celula df = (\<lambda>(m, c).
     let df_indexed = map (\<lambda>r. (chave r, QTD r)) df
     in \<lparr>MINUTO = m, CD_OPR = c,
         QTD = (case map_of df_indexed (m, c) of None \<Rightarrow> 0 | Some q \<Rightarrow> q)\<rparr>)"

definition extrair_dados :: "row list \<Rightarrow> py_error + row list" where
  "extrair_dados df =
     (if df = [] then Inr []
      else
        let cd_opr_unicos = unique (map CD_OPR df);
            min_time = Min (set (map MINUTO df));
            max_time = Max (set (map MINUTO df));
            todos_minutos = [min_time..max_time];
            novo_indice = List.product todos_minutos cd_opr_unicos
        in if \<not> distinct (map chave df) then Inl ValueError
           else Inr (map (celula df) novo_indice))"

text \<open>The number of minutes in the global span of a non-empty table.\<close>

definition n_minutos :: "row list \<Rightarrow> nat" where
  "n_minutos df = nat (Max (set (map MINUTO df)) - Min (set (map MINUTO df)) + 1)"

section \<open>Floating-point values\<close>

text \<open>
  A float64 is modelled as an exact real number or one of the three special values. The
  arithmetic below is the IEEE arithmetic on the special values and exact arithmetic on the
  finite ones: rounding, overflow to infinity and the sign of zero are outside the model.
\<close>

datatype fval = Fin real | PInf | NInf | NaN

fun fsgn :: "fval \<Rightarrow> int" where
  "fsgn (Fin a) = (if a > 0 then 1 else if a < 0 then - 1 else 0)"
| "fsgn PInf = 1"
| "fsgn NInf = - 1"
| "fsgn NaN = 0"

definition inf_signed :: "int \<Rightarrow> fval" where
  "inf_signed s = (if s > 0 then PInf else if s < 0 then NInf else NaN)"

text \<open>\<^verbatim>\<open>x * y\<close>: infinity times zero and anything times NaN are NaN.\<close>

fun fmul :: "fval \<Rightarrow> fval \<Rightarrow> fval" where
  "fmul (Fin a) (Fin b) = Fin (a * b)"
| "fmul NaN y = NaN"
| "fmul x NaN = NaN"
| "fmul x y = inf_signed (fsgn x * fsgn y)"

text \<open>
  \<^verbatim>\<open>x / y\<close> on numpy floats: a division by zero gives an infinity or NaN (with a
  warning), never an exception.
\<close>

fun fdiv :: "fval \<Rightarrow> fval \<Rightarrow> fval" where
  "fdiv NaN y = NaN"
| "fdiv x NaN = NaN"
| "fdiv (Fin a) (Fin b) = (if b = 0 then inf_signed (fsgn (Fin a)) else Fin (a / b))"
| "fdiv (Fin a) y = Fin 0"
| "fdiv x (Fin b) = inf_signed (fsgn x * (if b < 0 then - 1 else 1))"
| "fdiv x y = NaN"

text \<open>\<^verbatim>\<open>x == y\<close>: NaN is equal to nothing.\<close>

definition feq :: "fval \<Rightarrow> fval \<Rightarrow> bool" where
  "feq x y = (x \<noteq> NaN \<and> y \<noteq> NaN \<and> x = y)"

definition is_fin :: "fval \<Rightarrow> bool" where
  "is_fin v = (case v of Fin a \<Rightarrow> True | _ \<Rightarrow> False)"

section \<open>metrics.py\<close>

text \<open>
  A series is the array \<^verbatim>\<open>grupo['QTD'].values\<close>: integers. \<^verbatim>\<open>serie.mean()\<close> and
  \<^verbatim>\<open>serie.std()\<close> of a numpy array: the mean and the population standard deviation
  (\<^verbatim>\<open>ddof=0\<close>), both NaN on the empty array.
\<close>

definition media :: "int list \<Rightarrow> real" where
  "media xs = real_of_int (sum_list xs) / real (length xs)"

definition desvio :: "int list \<Rightarrow> real" where
  "desvio xs = sqrt ((\<Sum>x\<leftarrow>xs. (real_of_int x - media xs)\<^sup>2) / real (length xs))"

definition np_mean :: "int list \<Rightarrow> fval" where
  "np_mean xs = (if xs = [] then NaN else Fin (media xs))"

definition np_std :: "int list \<Rightarrow> fval" where
  "np_std xs = (if xs = [] then NaN else Fin (desvio xs))"

definition calcula_cv :: "int list \<Rightarrow> fval" where
  "calcula_cv serie =
     (let mean = np_mean serie; std = np_std serie
      in if feq mean (Fin 0) then PInf
         else fmul (fdiv std mean) (Fin 100))"

text \<open>
  The counts are an int64 array (\<^verbatim>\<open>astype(int)\<close>). Arithmetic of numpy on int64 wraps
  around modulo \<open>2^64\<close>: \<open>wrap64\<close> is the value of an integer result as an int64.
\<close>

definition wrap64 :: "int \<Rightarrow> int" where
  "wrap64 v = (v + 9223372036854775808) mod 18446744073709551616 - 9223372036854775808"

text \<open>
  \<^verbatim>\<open>np.diff\<close>: the successive differences, one element shorter, each computed in
  int64.
\<close>

definition np_diff :: "int list \<Rightarrow> int list" where
  "np_diff xs = map (\<lambda>(a, b). wrap64 (b - a)) (zip xs (tl xs))"

text \<open>The Python slice \<^verbatim>\<open>xs[:k]\<close>: a negative \<^verbatim>\<open>k\<close> counts from the end.\<close>

definition slice_ate :: "'a list \<Rightarrow> int \<Rightarrow> 'a list" where
  "slice_ate xs k =
     (if 0 \<le> k then take (nat k) xs else take (nat (int (length xs) + k)) xs)"

text \<open>\<^verbatim>\<open>np.all(xs == xs[0])\<close>: every value equals the first one.\<close>

definition constante :: "int list \<Rightarrow> bool" where
  "constante xs = list_all (\<lambda>v. v = xs ! 0) xs"

text \<open>
  \<^verbatim>\<open>statsmodels.tsa.stattools.acf(x, nlags=..., fft=False)\<close> is a library function that
  computes in float64. Its rounding decides which of two nearly equal autocorrelations is
  the larger, so the model does not compute its values: the function is a parameter
  \<open>acf\<close> of everything that calls it. It returns the array of the autocorrelations (each
  float64 as the real number it is) or raises.
\<close>

type_synonym acf_fn = "int list \<Rightarrow> int \<Rightarrow> py_error + real list"

text \<open>
  What is assumed of the library function where a statement needs it: on a series that is
  not constant it raises nothing and returns one finite value for each element of the slice
  \<^verbatim>\<open>avf[:nlags + 1]\<close> of the \<open>n\<close> autocovariances of the series (it ends with
  \<^verbatim>\<open>acf = avf[:nlags + 1] / avf[0]\<close>).
\<close>

definition acf_contrato :: "acf_fn \<Rightarrow> bool" where
  "acf_contrato acf =
     (\<forall>x k. \<not> constante x \<longrightarrow>
        (\<exists>r. acf x k = Inr r \<and> length r = length (slice_ate x (k + 1))))"

text \<open>
  An instance of the parameter for the examples: the autocorrelations in exact arithmetic,
  by the definition of the library function, that is the autocovariances
  \<^verbatim>\<open>acovf(x, adjusted=False, demean=True, fft=False)\<close>
  \<^verbatim>\<open>= np.correlate(xo, xo, 'full')[n - 1:] / n\<close> of the demeaned series \<^verbatim>\<open>xo\<close>, cut by
  the slice and divided by \<^verbatim>\<open>avf[0]\<close>. These are the values of the library up to
  rounding, and its very values where no step of the computation rounds; the examples that
  read a value off this instance use such series (small integers of mean 0, a length and a
  sum of squares that are powers of two).
\<close>

definition acovf :: "int list \<Rightarrow> real list" where
  "acovf x =
     (let n = length x;
          xo = map (\<lambda>v. real_of_int v - media x) x
      in map (\<lambda>k. (\<Sum>t\<leftarrow>[0..<n - k]. xo ! (t + k) * xo ! t) / real n) [0..<n])"

definition acf_exato :: acf_fn where
  "acf_exato x nlags =
     (let avf = acovf x
      in Inr (map (\<lambda>v. v / avf ! 0) (slice_ate avf (nlags + 1))))"

text \<open>\<^verbatim>\<open>np.max\<close> and \<^verbatim>\<open>np.argmax\<close> (the first position of the maximum).\<close>

definition np_max :: "real list \<Rightarrow> real" where
  "np_max xs = Max (set xs)"

definition np_argmax :: "real list \<Rightarrow> nat" where
  "np_argmax xs = length (takeWhile (\<lambda>v. v \<noteq> np_max xs) xs)"

text \<open>
  \<^verbatim>\<open>calcula_autocorr_diff(serie, nlags=360)\<close>, with the library function as its first
  argument. The test for a constant difference is evaluated only on a difference of at
  least two values (\<^verbatim>\<open>or\<close> stops at its first true operand). The \<^verbatim>\<open>try\<close> around
  the call of \<^verbatim>\<open>acf\<close> returns (0, 0) on any exception.
\<close>

definition calcula_autocorr_diff :: "acf_fn \<Rightarrow> int list \<Rightarrow> int \<Rightarrow> real \<times> int" where
  "calcula_autocorr_diff acf serie nlags =
     (if length serie < 2 then (0, 0)
      else
        let diff_serie = np_diff serie
        in if length diff_serie < 2 \<or> constante diff_serie then (0, 0)
           else
             (case acf diff_serie (min nlags (int (length diff_serie) - 1)) of
                Inl e \<Rightarrow> (0, 0)
              | Inr acf_diff \<Rightarrow>
                  let acf_abs = map abs (drop 1 acf_diff)
                  in if length acf_abs = 0 then (0, 0)
                     else (np_max acf_abs, int (np_argmax acf_abs) + 1)))"

text \<open>\<^verbatim>\<open>Series.median()\<close> and \<^verbatim>\<open>np.median\<close> of a non-empty series of finite values.\<close>

definition median :: "real list \<Rightarrow> real" where
  "median xs =
     (let s = sort xs; n = length s
      in if odd n then s ! (n div 2) else (s ! (n div 2 - 1) + s ! (n div 2)) / 2)"

text \<open>
  \<^verbatim>\<open>calcula_mad\<close> is \<^verbatim>\<open>statsmodels.robust.mad\<close>:
  \<^verbatim>\<open>np.median(np.abs(a - np.median(a)) / c)\<close> with the normal-consistency constant
  \<^verbatim>\<open>c = Gaussian.ppf(3/4)\<close>, about 0.6744897501960817.
\<close>

definition mad_c :: real where
  "mad_c = 6744897501960817 / 10000000000000000"

definition calcula_mad :: "real list \<Rightarrow> real" where
  "calcula_mad serie = median (map (\<lambda>v. \<bar>v - median serie\<bar> / mad_c) serie)"

section \<open>anomaly.py\<close>

text \<open>
  A row of the metric table. The columns \<^verbatim>\<open>score_anomaly\<close> and \<^verbatim>\<open>anormal\<close> are
  added by \<^verbatim>\<open>detectar_anomalias\<close>: \<open>None\<close> is a table without the column.
\<close>

record metric_row =
  cd_opr :: string
  autocorr_max_diff :: fval
  autocorr_lag :: int
  cv :: fval
  score_anomaly :: "fval option"
  anormal :: "bool option"

text \<open>
  \<^verbatim>\<open>dados.groupby('CD_OPR')\<close>: one group per operator, the keys in sorted order, the
  rows of a group in the order of the table.
\<close>

definition groupby_CD_OPR :: "row list \<Rightarrow> (string \<times> row list) list" where
  "groupby_CD_OPR dados =
     map (\<lambda>c. (c, filter (\<lambda>r. CD_OPR r = c) dados)) (sort (remdups (map CD_OPR dados)))"

text \<open>
  The loop of \<^verbatim>\<open>calcular_metricas_por_processo\<close> over the groups. Neither
  \<^verbatim>\<open>calcula_autocorr_diff\<close> nor \<^verbatim>\<open>calcula_cv\<close> raises on an integer array, so the
  \<^verbatim>\<open>except\<close> branch of the loop body is never taken.
\<close>

fun metricas_grupos :: "acf_fn \<Rightarrow> (string \<times> row list) list \<Rightarrow> metric_row list" where
  "metricas_grupos acf [] = []"
| "metricas_grupos acf ((c, grupo) # gs) =
     (let serie_temporal = map QTD grupo
      in if length serie_temporal < 10 then metricas_grupos acf gs
         else
           let (autocorr_max, lag) = calcula_autocorr_diff acf serie_temporal 360;
               cv_serie = calcula_cv serie_temporal
           in \<lparr>cd_opr = c, autocorr_max_diff = Fin autocorr_max, autocorr_lag = lag,
               cv = cv_serie, score_anomaly = None, anormal = None\<rparr>
              # metricas_grupos acf gs)"

text \<open>
  \<^verbatim>\<open>dados.sort_values(['CD_OPR', 'MINUTO'])\<close> is a stable lexicographic sort. An empty
  list of results is the empty DataFrame.
\<close>

definition calcular_metricas_por_processo :: "acf_fn \<Rightarrow> row list \<Rightarrow> metric_row list" where
  "calcular_metricas_por_processo acf dados =
     metricas_grupos acf (groupby_CD_OPR (sort_key (\<lambda>r. (CD_OPR r, MINUTO r)) dados))"

text \<open>
  The series of one operator as the loop sees it: the \<^verbatim>\<open>QTD\<close> values of its group in
  the sorted table.
\<close>

definition serie_do_operador :: "row list \<Rightarrow> string \<Rightarrow> int list" where
  "serie_do_operador dados c =
     map QTD (filter (\<lambda>r. CD_OPR r = c) (sort_key (\<lambda>r. (CD_OPR r, MINUTO r)) dados))"

text \<open>\<^verbatim>\<open>replace([np.inf, -np.inf], np.nan)\<close> on one value.\<close>

definition replace_inf :: "fval \<Rightarrow> fval" where
  "replace_inf v = (if v = PInf \<or> v = NInf then NaN else v)"

definition replace_inf_row :: "metric_row \<Rightarrow> metric_row" where
  "replace_inf_row r =
     r\<lparr>autocorr_max_diff := replace_inf (autocorr_max_diff r),
       cv := replace_inf (cv r),
       score_anomaly := map_option replace_inf (score_anomaly r)\<rparr>"

text \<open>The score of a row, as a real number; after \<^verbatim>\<open>dropna\<close> every score is finite.\<close>

definition score_val :: "metric_row \<Rightarrow> real" where
  "score_val r = (case score_anomaly r of Some (Fin a) \<Rightarrow> a | _ \<Rightarrow> 0)"

text \<open>
  \<^verbatim>\<open>detectar_anomalias(df_metricas, sigma_threshold=3)\<close>. The function changes the
  DataFrame object it receives, so the model returns two things: the contents of the
  caller's table after the call, and the returned tuple
  \<^verbatim>\<open>(df_metricas, mediana, mad, limite_superior)\<close>.
  \<^item> The metric table always has the columns \<^verbatim>\<open>cv\<close> and \<^verbatim>\<open>autocorr_max_diff\<close>, so
    the first test is the test for an empty table; it returns a new empty DataFrame.
  \<^item> The assignment of \<^verbatim>\<open>score_anomaly\<close>, \<^verbatim>\<open>replace(..., inplace=True)\<close>,
    \<^verbatim>\<open>dropna(..., inplace=True)\<close> and the assignment of \<^verbatim>\<open>anormal\<close> act on the
    caller's object.
  \<^item> \<^verbatim>\<open>sort_values('score_anomaly', ascending=False)\<close> makes a new table, bound to the
    local name only. Its order among equal scores is modelled by a stable sort.
\<close>

definition detectar_anomalias ::
  "metric_row list \<Rightarrow> real \<Rightarrow> metric_row list \<times> (metric_row list \<times> fval \<times> fval \<times> fval)" where
  "detectar_anomalias df_metricas sigma_threshold =
     (if df_metricas = [] then (df_metricas, ([], NaN, NaN, NaN))
      else
        let df1 = map (\<lambda>r. r\<lparr>score_anomaly := Some (fmul (cv r) (autocorr_max_diff r))\<rparr>)
                    df_metricas;
            df2 = map replace_inf_row df1;
            df3 = filter (\<lambda>r. score_anomaly r \<noteq> Some NaN) df2
        in if df3 = [] then (df3, (df3, NaN, NaN, NaN))
           else
             let mediana = median (map score_val df3);
                 mad = calcula_mad (map score_val df3)
             in if mad = 0
                then
                  let df4 = map (\<lambda>r. r\<lparr>anormal := Some False\<rparr>) df3
                  in (df4, (sort_key (\<lambda>r. - score_val r) df4, Fin mediana, Fin mad,
                            Fin mediana))
                else
                  let limite_superior = mediana + sigma_threshold * mad;
                      df4 = map (\<lambda>r. r\<lparr>anormal := Some (score_val r > limite_superior)\<rparr>) df3
                  in (df4, (sort_key (\<lambda>r. - score_val r) df4, Fin mediana, Fin mad,
                            Fin limite_superior)))"

section \<open>Notions used in the statements about the detection\<close>

text \<open>The anomaly score of a row of the metric table: \<^verbatim>\<open>cv * autocorr_max_diff\<close>.\<close>

definition score :: "metric_row \<Rightarrow> fval" where
  "score r = fmul (cv r) (autocorr_max_diff r)"

text \<open>The finite scores of a metric table, in the order of its rows.\<close>

definition scores_validos :: "metric_row list \<Rightarrow> real list" where
  "scores_validos df =
     List.map_filter (\<lambda>r. case score r of Fin a \<Rightarrow> Some a | _ \<Rightarrow> None) df"

text \<open>
  A row after the assignment of the score and the replacement of the infinities, and the
  rows that \<^verbatim>\<open>dropna\<close> keeps.
\<close>

definition pontuar :: "metric_row \<Rightarrow> metric_row" where
  "pontuar r = replace_inf_row (r\<lparr>score_anomaly := Some (fmul (cv r) (autocorr_max_diff r))\<rparr>)"

definition validos :: "metric_row list \<Rightarrow> metric_row list" where
  "validos df = filter (\<lambda>r. score_anomaly r \<noteq> Some NaN) (map pontuar df)"

section \<open>Properties of the densification\<close>

lemma set_unique: "set (unique xs) = set xs"
  by (simp add: unique_def)

lemma distinct_unique: "distinct (unique xs)"
  by (simp add: unique_def)

lemma length_unique: "length (unique xs) = card (set xs)"
proof -
  have "length (unique xs) = card (set (rev xs))"
    unfolding unique_def by (simp add: length_remdups_card_conv)
  then show ?thesis by simp
qed

lemma extrair_dados_dup:
  assumes "\<not> distinct (map chave df)"
  shows "extrair_dados df = Inl ValueError"
proof -
  from assms have "df \<noteq> []" by auto
  with assms show ?thesis
    by (simp add: extrair_dados_def Let_def)
qed

lemma chave_celula: "chave (celula df p) = p"
  by (cases p) (simp add: celula_def chave_def)

lemma celula_ausente:
  assumes "(m, c) \<notin> chave ` set df"
  shows "celula df (m, c) = \<lparr>MINUTO = m, CD_OPR = c, QTD = 0\<rparr>"
proof -
  have "map_of (map (\<lambda>r. (chave r, QTD r)) df) (m, c) = None"
    using assms by (simp add: map_of_eq_None_iff image_image)
  then show ?thesis by (simp add: celula_def)
qed

lemma celula_presente:
  assumes "distinct (map chave df)" and "r \<in> set df"
  shows "celula df (chave r) = r"
proof -
  have d: "distinct (map fst (map (\<lambda>r. (chave r, QTD r)) df))"
    using assms(1) by (simp add: comp_def)
  have "(chave r, QTD r) \<in> set (map (\<lambda>r. (chave r, QTD r)) df)"
    using assms(2) by auto
  with d have "map_of (map (\<lambda>r. (chave r, QTD r)) df) (chave r) = Some (QTD r)"
    by (rule map_of_is_SomeI)
  then show ?thesis by (simp add: celula_def chave_def)
qed

lemma extrair_dados_grid:
  assumes "df \<noteq> []" and "distinct (map chave df)"
  shows "extrair_dados df =
     Inr (map (celula df)
          (List.product [Min (set (map MINUTO df))..Max (set (map MINUTO df))]
             (unique (map CD_OPR df))))"
  using assms by (simp add: extrair_dados_def Let_def)

lemma map_chave_grid: "map chave (map (celula df) ps) = ps"
  by (simp add: comp_def chave_celula)

text \<open>The rows of a duplicate-free input are rows of the grid, with their counts.\<close>

lemma observados_na_grade:
  assumes "distinct (map chave df)" and "extrair_dados df = Inr grid" and "r \<in> set df"
  shows "r \<in> set grid"
proof -
  let ?ps = "List.product [Min (set (map MINUTO df))..Max (set (map MINUTO df))]
               (unique (map CD_OPR df))"
  from assms(3) have ne: "df \<noteq> []" by auto
  with assms(1,2) have g: "grid = map (celula df) ?ps"
    by (simp add: extrair_dados_grid)
  have "Min (set (map MINUTO df)) \<le> MINUTO r" and "MINUTO r \<le> Max (set (map MINUTO df))"
    using assms(3) by simp_all
  then have "chave r \<in> set ?ps"
    using assms(3) by (simp add: chave_def set_unique)
  then have "celula df (chave r) \<in> set grid"
    unfolding g set_map by (rule imageI)
  with assms(1,3) show ?thesis by (simp add: celula_presente)
qed

text \<open>
  On a non-empty input in which no (minute, operator) pair occurs twice the grid is complete:
  (number of distinct operators) times (number of minutes from the smallest to the largest
  timestamp) rows, each pair once, and count 0 for every pair of the grid that the input
  does not have.
\<close>

lemma grade_completa_sem_duplicados:
  assumes "df \<noteq> []" and "distinct (map chave df)"
  shows "\<exists>grid. extrair_dados df = Inr grid
     \<and> length grid = card (CD_OPR ` set df) * n_minutos df
     \<and> distinct (map chave grid)
     \<and> (\<forall>m c. Min (set (map MINUTO df)) \<le> m \<and> m \<le> Max (set (map MINUTO df))
            \<and> c \<in> CD_OPR ` set df \<and> (m, c) \<notin> chave ` set df
          \<longrightarrow> \<lparr>MINUTO = m, CD_OPR = c, QTD = 0\<rparr> \<in> set grid)
     \<and> (\<forall>r \<in> set grid. chave r \<notin> chave ` set df \<longrightarrow> QTD r = 0)"
proof -
  let ?lo = "Min (set (map MINUTO df))" and ?hi = "Max (set (map MINUTO df))"
  let ?ps = "List.product [?lo..?hi] (unique (map CD_OPR df))"
  let ?grid = "map (celula df) ?ps"
  have g: "extrair_dados df = Inr ?grid"
    using assms by (rule extrair_dados_grid)
  have len: "length ?grid = card (CD_OPR ` set df) * n_minutos df"
    by (simp add: length_unique n_minutos_def)
  have dist: "distinct (map chave ?grid)"
    unfolding map_chave_grid by (simp add: distinct_product distinct_unique)
  have zero: "\<lparr>MINUTO = m, CD_OPR = c, QTD = 0\<rparr> \<in> set ?grid"
    if "?lo \<le> m" "m \<le> ?hi" "c \<in> CD_OPR ` set df" "(m, c) \<notin> chave ` set df" for m c
  proof -
    have "(m, c) \<in> set ?ps"
      using that(1,2,3) by (simp add: set_unique)
    then have "celula df (m, c) \<in> set ?grid"
      unfolding set_map by (rule imageI)
    with that(4) show ?thesis by (simp add: celula_ausente)
  qed
  have zero2: "QTD r = 0" if "r \<in> set ?grid" "chave r \<notin> chave ` set df" for r
  proof -
    from that(1) obtain p where p: "r = celula df p" by auto
    then have "chave r = p" by (simp add: chave_celula)
    with that(2) p show ?thesis
      by (cases p) (simp add: celula_ausente)
  qed
  from g len dist zero zero2 show ?thesis by blast
qed

text \<open>
  Claim C1: for every non-empty parsed input the densified table has (number of distinct
  operators) times (number of minutes of the global span) rows, with count 0 for every absent
  pair. The code breaks it on a repeated pair. The input below has one operator and one
  minute, so the table should have one row; the reindex raises \<^verbatim>\<open>ValueError\<close>, which
  leaves \<open>extrair_dados\<close> uncaught, where every other failure of the function is caught
  and answered with an empty DataFrame.
\<close>

theorem duplicado_interrompe_densificacao:
  "extrair_dados [\<lparr>MINUTO = 0, CD_OPR = ''A'', QTD = 1\<rparr>,
                  \<lparr>MINUTO = 0, CD_OPR = ''A'', QTD = 2\<rparr>] = Inl ValueError
   \<and> card (CD_OPR ` set [\<lparr>MINUTO = 0, CD_OPR = ''A'', QTD = 1\<rparr>,
                           \<lparr>MINUTO = 0, CD_OPR = ''A'', QTD = 2\<rparr>])
       * n_minutos [\<lparr>MINUTO = 0, CD_OPR = ''A'', QTD = 1\<rparr>,
                    \<lparr>MINUTO = 0, CD_OPR = ''A'', QTD = 2\<rparr>] = 1"
  by (simp add: extrair_dados_def chave_def n_minutos_def)

text \<open>
  Claim C2: an input with duplicate (timestamp, operator) records is still densified, each
  duplicated pair carrying the count written last. The code breaks it, by the same defect:
  on the input below, where the claim gives the grid of the rows (0, A, 2) and (1, A, 5),
  the function raises \<^verbatim>\<open>ValueError\<close> and returns no grid.
\<close>

theorem duplicado_nao_fica_com_ultimo:
  "extrair_dados [\<lparr>MINUTO = 0, CD_OPR = ''A'', QTD = 1\<rparr>,
                  \<lparr>MINUTO = 1, CD_OPR = ''A'', QTD = 5\<rparr>,
                  \<lparr>MINUTO = 0, CD_OPR = ''A'', QTD = 2\<rparr>] = Inl ValueError
   \<and> extrair_dados [\<lparr>MINUTO = 0, CD_OPR = ''A'', QTD = 1\<rparr>,
                      \<lparr>MINUTO = 1, CD_OPR = ''A'', QTD = 5\<rparr>,
                      \<lparr>MINUTO = 0, CD_OPR = ''A'', QTD = 2\<rparr>]
       \<noteq> Inr [\<lparr>MINUTO = 0, CD_OPR = ''A'', QTD = 2\<rparr>,
               \<lparr>MINUTO = 1, CD_OPR = ''A'', QTD = 5\<rparr>]"
  by (simp add: extrair_dados_def chave_def)

section \<open>Properties of the metrics\<close>

lemma media_replicate: "0 < n \<Longrightarrow> media (replicate n c) = real_of_int c"
  by (simp add: media_def sum_list_replicate)

lemma desvio_replicate: "0 < n \<Longrightarrow> desvio (replicate n c) = 0"
  by (simp add: desvio_def media_replicate sum_list_replicate)

lemma calcula_cv_fin:
  assumes "xs \<noteq> []" and "media xs \<noteq> 0"
  shows "calcula_cv xs = Fin (desvio xs / media xs * 100)"
  using assms by (simp add: calcula_cv_def np_mean_def np_std_def feq_def)

lemma calcula_cv_zero_mean:
  assumes "np_mean xs = Fin 0"
  shows "calcula_cv xs = PInf"
  using assms by (simp add: calcula_cv_def feq_def)

text \<open>
  Claim C3. For every series whose mean is 0, \<open>calcula_cv\<close> returns plus infinity, a value
  and not an error; for every constant series of a non-zero value it returns 0; otherwise it
  returns (stddev / mean) * 100, which for a non-empty series is the finite number
  \<open>desvio serie / media serie * 100\<close>.
\<close>

theorem calcula_cv_casos:
  "(np_mean serie = Fin 0 \<longrightarrow> calcula_cv serie = PInf)
   \<and> (0 < n \<and> c \<noteq> 0 \<longrightarrow> calcula_cv (replicate n c) = Fin 0)
   \<and> (np_mean serie \<noteq> Fin 0 \<longrightarrow>
        calcula_cv serie = fmul (fdiv (np_std serie) (np_mean serie)) (Fin 100))
   \<and> (serie \<noteq> [] \<and> media serie \<noteq> 0 \<longrightarrow>
        calcula_cv serie = Fin (desvio serie / media serie * 100))"
proof (intro conjI impI)
  assume "np_mean serie = Fin 0"
  then show "calcula_cv serie = PInf" by (rule calcula_cv_zero_mean)
next
  assume a: "0 < n \<and> c \<noteq> 0"
  then have "replicate n c \<noteq> []" and "media (replicate n c) \<noteq> 0"
    by (simp_all add: media_replicate)
  then have "calcula_cv (replicate n c)
      = Fin (desvio (replicate n c) / media (replicate n c) * 100)"
    by (rule calcula_cv_fin)
  with a show "calcula_cv (replicate n c) = Fin 0"
    by (simp add: desvio_replicate)
next
  assume "np_mean serie \<noteq> Fin 0"
  then show "calcula_cv serie = fmul (fdiv (np_std serie) (np_mean serie)) (Fin 100)"
    by (cases "np_mean serie") (simp_all add: calcula_cv_def feq_def Let_def)
next
  assume "serie \<noteq> [] \<and> media serie \<noteq> 0"
  then show "calcula_cv serie = Fin (desvio serie / media serie * 100)"
    by (simp add: calcula_cv_fin)
qed


theorem calcula_cv_casos_witness:
  "np_mean [1, - 1] = Fin 0 \<and> calcula_cv [1, - 1] = PInf
   \<and> calcula_cv (replicate 3 7) = Fin 0
   \<and> np_mean [1, 3] \<noteq> Fin 0 \<and> media [1, 3] \<noteq> 0
   \<and> calcula_cv [1, 3] = Fin 50"
proof -
  have m0: "np_mean [1, - 1] = Fin 0" by (simp add: np_mean_def media_def)
  have m2: "media [1, 3] = 2" by (simp add: media_def)
  have d1: "desvio [1, 3] = 1" by (simp add: desvio_def media_def)
  have n2: "np_mean [1, 3] \<noteq> Fin 0" by (simp add: np_mean_def m2)
  from calcula_cv_casos [of "[1, - 1]" 3 7] m0
  have a: "calcula_cv [1, - 1] = PInf \<and> calcula_cv (replicate 3 7) = Fin 0" by simp
  from calcula_cv_casos [of "[1, 3]" 3 7] m2 d1
  have b: "calcula_cv [1, 3] = Fin 50" by simp
  from a b m0 m2 n2 show ?thesis by simp
qed

lemma length_np_diff: "length (np_diff xs) = length xs - 1"
  by (simp add: np_diff_def)

lemma constante_iff: "constante xs \<longleftrightarrow> (\<forall>v \<in> set xs. \<forall>w \<in> set xs. v = w)"
proof (cases xs)
  case Nil
  then show ?thesis by (simp add: constante_def)
next
  case (Cons a as)
  then show ?thesis unfolding constante_def list_all_iff by simp metis
qed

lemma constante_replicate: "constante (replicate n d)"
  by (simp add: constante_iff)

lemma wrap64_id:
  assumes "- 9223372036854775808 \<le> v" and "v < 9223372036854775808"
  shows "wrap64 v = v"
  using assms by (simp add: wrap64_def)

lemma np_diff_linear:
  "np_diff (map (\<lambda>i. a + b * int i) [0..<n]) = replicate (n - 1) (wrap64 b)"
proof (rule nth_equalityI)
  show "length (np_diff (map (\<lambda>i. a + b * int i) [0..<n]))
      = length (replicate (n - 1) (wrap64 b))"
    by (simp add: length_np_diff)
next
  fix i assume "i < length (np_diff (map (\<lambda>i. a + b * int i) [0..<n]))"
  then have i: "i < n - 1" by (simp add: length_np_diff)
  then show "np_diff (map (\<lambda>i. a + b * int i) [0..<n]) ! i
      = replicate (n - 1) (wrap64 b) ! i"
    by (simp add: np_diff_def nth_tl algebra_simps)
qed

text \<open>A difference that leaves int64 wraps, as in numpy.\<close>

lemma np_diff_transborda:
  "np_diff [0, 9223372036854775807, - 2] = [9223372036854775807, 9223372036854775807]"
  by (simp add: np_diff_def wrap64_def)

lemma autocorr_curta: "length serie < 2 \<Longrightarrow> calcula_autocorr_diff acf serie nlags = (0, 0)"
  by (simp add: calcula_autocorr_diff_def)

lemma autocorr_diff_curta:
  "length (np_diff serie) < 2 \<Longrightarrow> calcula_autocorr_diff acf serie nlags = (0, 0)"
  by (simp add: calcula_autocorr_diff_def Let_def)

lemma autocorr_diff_constante:
  "constante (np_diff serie) \<Longrightarrow> calcula_autocorr_diff acf serie nlags = (0, 0)"
  by (simp add: calcula_autocorr_diff_def Let_def)

text \<open>
  Claim C5. For every series of length 0 or 1, for every series whose first difference has
  fewer than two values, and for every series whose first difference is constant (all values
  equal, which includes every linear series \<open>a + b * i\<close>), \<open>calcula_autocorr_diff\<close>
  returns (0, 0); the function is total on these inputs, nothing is raised.
\<close>

theorem autocorr_degenerado:
  "(length serie < 2 \<longrightarrow> calcula_autocorr_diff acf serie nlags = (0, 0))
   \<and> (length (np_diff serie) < 2 \<longrightarrow> calcula_autocorr_diff acf serie nlags = (0, 0))
   \<and> (constante (np_diff serie) \<longrightarrow> calcula_autocorr_diff acf serie nlags = (0, 0))
   \<and> ((\<forall>v \<in> set (np_diff serie). v = d) \<longrightarrow> calcula_autocorr_diff acf serie nlags = (0, 0))
   \<and> calcula_autocorr_diff acf (map (\<lambda>i. a + b * int i) [0..<n]) nlags = (0, 0)"
proof (intro conjI impI)
  assume "\<forall>v \<in> set (np_diff serie). v = d"
  then have "constante (np_diff serie)" unfolding constante_iff by metis
  then show "calcula_autocorr_diff acf serie nlags = (0, 0)" by (rule autocorr_diff_constante)
next
  have "constante (np_diff (map (\<lambda>i. a + b * int i) [0..<n]))"
    by (simp add: np_diff_linear constante_replicate)
  then show "calcula_autocorr_diff acf (map (\<lambda>i. a + b * int i) [0..<n]) nlags = (0, 0)"
    by (rule autocorr_diff_constante)
qed (simp_all add: autocorr_curta autocorr_diff_curta autocorr_diff_constante)

theorem autocorr_degenerado_witness:
  "length [4::int] < 2 \<and> calcula_autocorr_diff acf_exato [4] 360 = (0, 0)
   \<and> length (np_diff [4, 9]) < 2 \<and> calcula_autocorr_diff acf_exato [4, 9] 360 = (0, 0)
   \<and> constante (np_diff [1, 3, 5, 7])
   \<and> calcula_autocorr_diff acf_exato [1, 3, 5, 7] 360 = (0, 0)
   \<and> calcula_autocorr_diff acf_exato [] 360 = (0, 0)"
proof -
  have a: "length [4::int] < 2" by simp
  have b: "length (np_diff [4, 9]) < 2" by (simp add: np_diff_def)
  have c: "constante (np_diff [1, 3, 5, 7])"
    by (simp add: np_diff_def wrap64_def constante_def)
  have e: "length ([]::int list) < 2" by simp
  from autocorr_degenerado [where serie = "[4]" and acf = acf_exato and nlags = 360] a
  have 1: "calcula_autocorr_diff acf_exato [4] 360 = (0, 0)" by blast
  from autocorr_degenerado [where serie = "[4, 9]" and acf = acf_exato and nlags = 360] b
  have 2: "calcula_autocorr_diff acf_exato [4, 9] 360 = (0, 0)" by blast
  from autocorr_degenerado [where serie = "[1, 3, 5, 7]" and acf = acf_exato and nlags = 360] c
  have 3: "calcula_autocorr_diff acf_exato [1, 3, 5, 7] 360 = (0, 0)" by blast
  from autocorr_degenerado [where serie = "[]" and acf = acf_exato and nlags = 360] e
  have 4: "calcula_autocorr_diff acf_exato [] 360 = (0, 0)" by blast
  from a b c 1 2 3 4 show ?thesis by blast
qed

text \<open>The exact instance of the library function satisfies what is assumed of it.\<close>

lemma length_acovf: "length (acovf x) = length x"
  by (simp add: acovf_def Let_def)

lemma acovf_0:
  assumes "x \<noteq> []"
  shows "acovf x ! 0 = (\<Sum>v\<leftarrow>x. (real_of_int v - media x)\<^sup>2) / real (length x)"
proof -
  let ?xo = "map (\<lambda>v. real_of_int v - media x) x"
  have "(\<Sum>t\<leftarrow>[0..<length x]. ?xo ! t * ?xo ! t) = (\<Sum>w\<leftarrow>map (\<lambda>t. ?xo ! t) [0..<length ?xo]. w * w)"
    by (simp add: comp_def)
  also have "\<dots> = (\<Sum>w\<leftarrow>?xo. w * w)"
    by (simp only: map_nth)
  also have "\<dots> = (\<Sum>v\<leftarrow>x. (real_of_int v - media x)\<^sup>2)"
    by (simp add: comp_def power2_eq_square)
  finally have s: "(\<Sum>t\<leftarrow>[0..<length x]. ?xo ! t * ?xo ! t)
      = (\<Sum>v\<leftarrow>x. (real_of_int v - media x)\<^sup>2)" .
  from assms have "0 < length x" by simp
  then have "acovf x ! 0 = (\<Sum>t\<leftarrow>[0..<length x]. ?xo ! t * ?xo ! t) / real (length x)"
    by (simp add: acovf_def Let_def del: upt_eq_Nil_conv)
  with s show ?thesis by simp
qed

lemma sum_list_pos_member:
  fixes f :: "'a \<Rightarrow> real"
  assumes "\<forall>x \<in> set xs. 0 \<le> f x" and "v \<in> set xs" and "0 < f v"
  shows "0 < sum_list (map f xs)"
  using assms
proof (induction xs)
  case Nil
  then show ?case by simp
next
  case (Cons a as)
  have nn: "0 \<le> sum_list (map f as)"
    using Cons.prems(1) by (intro sum_list_nonneg) auto
  show ?case
  proof (cases "v = a")
    case True
    with Cons.prems(3) nn show ?thesis by simp
  next
    case False
    with Cons.prems have "v \<in> set as" by simp
    with Cons have "0 < sum_list (map f as)" by simp
    moreover have "0 \<le> f a" using Cons.prems(1) by simp
    ultimately show ?thesis by simp
  qed
qed

lemma nao_constante_desvia:
  assumes "\<not> constante x"
  shows "\<exists>v \<in> set x. real_of_int v \<noteq> media x"
proof (rule ccontr)
  assume "\<not> (\<exists>v \<in> set x. real_of_int v \<noteq> media x)"
  then have all: "\<forall>v \<in> set x. real_of_int v = media x" by blast
  then have "\<forall>v \<in> set x. \<forall>w \<in> set x. v = w"
    by (metis of_int_eq_iff)
  with assms show False by (simp add: constante_iff)
qed

lemma acovf_0_pos:
  assumes "\<not> constante x"
  shows "0 < acovf x ! 0"
proof -
  from assms have ne: "x \<noteq> []" by (auto simp: constante_def)
  from nao_constante_desvia [OF assms] obtain v where
    v: "v \<in> set x" "real_of_int v \<noteq> media x" by blast
  have "0 < (\<Sum>w\<leftarrow>x. (real_of_int w - media x)\<^sup>2)"
  proof (rule sum_list_pos_member)
    show "\<forall>w \<in> set x. 0 \<le> (real_of_int w - media x)\<^sup>2" by simp
    show "v \<in> set x" by (rule v(1))
    show "0 < (real_of_int v - media x)\<^sup>2" using v(2) by simp
  qed
  with ne show ?thesis by (simp add: acovf_0)
qed

lemma length_slice_ate:
  "length (slice_ate xs k)
     = (if 0 \<le> k then min (nat k) (length xs) else nat (int (length xs) + k))"
  by (simp add: slice_ate_def min.commute)

lemma acf_exato_contrato: "acf_contrato acf_exato"
  unfolding acf_contrato_def acf_exato_def Let_def
  by (simp add: length_slice_ate length_acovf)

lemma acf_exato_0:
  assumes "\<not> constante x" and "0 \<le> k"
  shows "\<exists>r. acf_exato x k = Inr r \<and> r ! 0 = 1"
proof -
  from assms(1) have ne: "x \<noteq> []" by (auto simp: constante_def)
  have "0 < nat (k + 1)" using assms(2) by simp
  moreover have "0 < length (acovf x)" using ne by (simp add: length_acovf)
  ultimately have "map (\<lambda>v. v / acovf x ! 0) (slice_ate (acovf x) (k + 1)) ! 0
      = acovf x ! 0 / acovf x ! 0"
    by (simp add: slice_ate_def assms(2))
  with acovf_0_pos [OF assms(1)] show ?thesis
    by (simp add: acf_exato_def Let_def)
qed

lemma acf_contrato_lags:
  assumes "acf_contrato acf" and "\<not> constante x" and "0 \<le> k" and "k < int (length x)"
  shows "\<exists>r. acf x k = Inr r \<and> length r = nat k + 1"
proof -
  from assms(1,2) obtain r where r: "acf x k = Inr r"
      "length r = length (slice_ate x (k + 1))"
    unfolding acf_contrato_def by blast
  have "length (slice_ate x (k + 1)) = nat k + 1"
    using assms(3,4) by (simp add: length_slice_ate)
  with r show ?thesis by simp
qed

lemma np_max_in: "xs \<noteq> [] \<Longrightarrow> np_max xs \<in> set xs"
  by (simp add: np_max_def)

lemma np_max_ge: "v \<in> set xs \<Longrightarrow> v \<le> np_max xs"
  by (simp add: np_max_def)

lemma np_argmax_less:
  assumes "xs \<noteq> []"
  shows "np_argmax xs < length xs"
proof -
  let ?P = "\<lambda>v. v \<noteq> np_max xs"
  have "\<not> (\<forall>v \<in> set xs. ?P v)" using np_max_in [OF assms] by blast
  then have "dropWhile ?P xs \<noteq> []" unfolding dropWhile_eq_Nil_conv .
  then have "0 < length (dropWhile ?P xs)" by simp
  moreover have "length (takeWhile ?P xs) + length (dropWhile ?P xs) = length xs"
    by (simp only: length_append [symmetric] takeWhile_dropWhile_id)
  ultimately show ?thesis unfolding np_argmax_def by linarith
qed

lemma np_argmax_max:
  assumes "xs \<noteq> []"
  shows "xs ! np_argmax xs = np_max xs"
  using nth_length_takeWhile [of "\<lambda>v. v \<noteq> np_max xs" xs] np_argmax_less [OF assms]
  by (simp add: np_argmax_def)

lemma np_argmax_first:
  assumes "j < np_argmax xs"
  shows "xs ! j < np_max xs"
proof -
  let ?P = "\<lambda>v. v \<noteq> np_max xs"
  from assms have j: "j < length (takeWhile ?P xs)" by (simp add: np_argmax_def)
  then have "takeWhile ?P xs ! j \<in> set (takeWhile ?P xs)" by (rule nth_mem)
  then have "takeWhile ?P xs ! j \<in> set xs \<and> ?P (takeWhile ?P xs ! j)"
    by (auto dest: set_takeWhileD)
  moreover have "takeWhile ?P xs ! j = xs ! j" using j by (rule takeWhile_nth)
  ultimately have "xs ! j \<in> set xs" "xs ! j \<noteq> np_max xs" by simp_all
  with np_max_ge [of "xs ! j" xs] show ?thesis by simp
qed

lemma autocorr_geral:
  assumes "2 \<le> length (np_diff serie)" and "\<not> constante (np_diff serie)" and "1 \<le> nlags"
    and "m = min nlags (int (length (np_diff serie)) - 1)"
    and "acf (np_diff serie) m = Inr r" and "length r = nat m + 1"
  shows "calcula_autocorr_diff acf serie nlags =
           (np_max (map abs (drop 1 r)), int (np_argmax (map abs (drop 1 r))) + 1)"
    and "length (map abs (drop 1 r)) = nat m"
    and "1 \<le> m"
proof -
  let ?a = "map abs (drop 1 r)"
  show m1: "1 \<le> m" using assms(1,3,4) by simp
  show len: "length ?a = nat m" using assms(6) by simp
  with m1 have "length ?a \<noteq> 0" by simp
  moreover have "\<not> length serie < 2" using assms(1) by (simp add: length_np_diff)
  ultimately show "calcula_autocorr_diff acf serie nlags = (np_max ?a, int (np_argmax ?a) + 1)"
    using assms(1,2,5) unfolding calcula_autocorr_diff_def Let_def assms(4) [symmetric]
    by simp
qed

text \<open>Without a lag to look at, the guard on an empty \<^verbatim>\<open>acf_abs\<close> returns (0, 0).\<close>

lemma autocorr_sem_lags:
  assumes "acf (np_diff serie) (min nlags (int (length (np_diff serie)) - 1)) = Inr r"
    and "length r \<le> 1"
  shows "calcula_autocorr_diff acf serie nlags = (0, 0)"
  using assms by (simp add: calcula_autocorr_diff_def Let_def)

text \<open>
  Claim C4, as amended. For every series whose first difference has at least two values,
  not all equal, and every requested number of lags \<open>nlags\<close> of at least 1,
  \<open>calcula_autocorr_diff\<close> returns the maximum over the lags 1 to
  min(nlags, len(diff) - 1) of the absolute values of the autocorrelations that the library
  returns for the differenced series, together with the lag that achieves it, counted from 1
  (lag 0 is left out); of several lags with the maximal value it is the first. The library
  function is assumed to return one value per lag.
\<close>

theorem autocorr_maximo:
  assumes "acf_contrato acf"
    and "2 \<le> length (np_diff serie)" and "\<not> constante (np_diff serie)" and "1 \<le> nlags"
  shows "\<exists>r lag.
       acf (np_diff serie) (min nlags (int (length (np_diff serie)) - 1)) = Inr r
     \<and> length r = nat (min nlags (int (length (np_diff serie)) - 1)) + 1
     \<and> calcula_autocorr_diff acf serie nlags = (\<bar>r ! lag\<bar>, int lag)
     \<and> 1 \<le> lag \<and> int lag \<le> min nlags (int (length (np_diff serie)) - 1)
     \<and> (\<forall>k. 1 \<le> k \<and> int k \<le> min nlags (int (length (np_diff serie)) - 1) \<longrightarrow>
            \<bar>r ! k\<bar> \<le> \<bar>r ! lag\<bar>)
     \<and> (\<forall>k. 1 \<le> k \<and> k < lag \<longrightarrow> \<bar>r ! k\<bar> < \<bar>r ! lag\<bar>)"
proof -
  define m where "m = min nlags (int (length (np_diff serie)) - 1)"
  have m0: "0 \<le> m" and m2: "m < int (length (np_diff serie))"
    using assms(2,4) unfolding m_def by linarith+
  from acf_contrato_lags [OF assms(1,3) m0 m2] obtain r where
    r: "acf (np_diff serie) m = Inr r" "length r = nat m + 1"
    by blast
  let ?a = "map abs (drop 1 r)"
  let ?i = "np_argmax ?a"
  have res: "calcula_autocorr_diff acf serie nlags = (np_max ?a, int ?i + 1)"
    and len: "length ?a = nat m" and m: "1 \<le> m"
    using assms(2-4) m_def r by (rule autocorr_geral)+
  from len m have ne: "?a \<noteq> []" by auto
  have nth: "?a ! j = \<bar>r ! (Suc j)\<bar>" if "j < nat m" for j
    using that len by simp
  have i: "?i < nat m" using np_argmax_less [OF ne] len by simp
  have mx: "np_max ?a = \<bar>r ! (Suc ?i)\<bar>"
    using np_argmax_max [OF ne] nth [OF i] by simp
  have ge: "\<bar>r ! k\<bar> \<le> \<bar>r ! (Suc ?i)\<bar>" if "1 \<le> k" "int k \<le> m" for k
  proof -
    from that obtain j where j: "k = Suc j" "j < nat m"
      by (cases k) auto
    then have "?a ! j \<in> set ?a" using len by (intro nth_mem) simp
    then have "?a ! j \<le> np_max ?a" by (rule np_max_ge)
    with nth [OF j(2)] mx j(1) show ?thesis by simp
  qed
  have lt: "\<bar>r ! k\<bar> < \<bar>r ! (Suc ?i)\<bar>" if "1 \<le> k" "k < Suc ?i" for k
  proof -
    from that obtain j where j: "k = Suc j" "j < ?i"
      by (cases k) auto
    then have "?a ! j < np_max ?a" by (intro np_argmax_first)
    moreover have "j < nat m" using j(2) i by simp
    ultimately show ?thesis using nth [of j] mx j(1) by simp
  qed
  have "calcula_autocorr_diff acf serie nlags = (\<bar>r ! (Suc ?i)\<bar>, int (Suc ?i))"
    using res mx by simp
  moreover have "1 \<le> Suc ?i" by simp
  moreover have "int (Suc ?i) \<le> m" using i by linarith
  ultimately show ?thesis unfolding m_def [symmetric] using r ge lt by blast
qed

theorem autocorr_maximo_witness:
  "acf_contrato acf_exato
   \<and> 2 \<le> length (np_diff [0, 1, 0, 1, 0])
   \<and> \<not> constante (np_diff [0, 1, 0, 1, 0])
   \<and> (1::int) \<le> 360
   \<and> acf_exato (np_diff [0, 1, 0, 1, 0]) 3 = Inr [1, - (3 / 4), 1 / 2, - (1 / 4)]
   \<and> calcula_autocorr_diff acf_exato [0, 1, 0, 1, 0] 360 = (3 / 4, 1)"
proof -
  have d: "np_diff [0, 1, 0, 1, 0] = [1, - 1, 1, - 1]"
    by (simp add: np_diff_def wrap64_def)
  have h1: "2 \<le> length (np_diff [0, 1, 0, 1, 0])" by (simp add: d)
  have h2: "\<not> constante (np_diff [0, 1, 0, 1, 0])" by (simp add: d constante_def)
  have h3: "(1::int) \<le> 360" by simp
  have m: "min 360 (int (length (np_diff [0, 1, 0, 1, 0])) - 1) = 3" by (simp add: d)
  have v: "acf_exato (np_diff [0, 1, 0, 1, 0]) 3 = Inr [1, - (3 / 4), 1 / 2, - (1 / 4)]"
    by (simp add: d acf_exato_def acovf_def media_def slice_ate_def Let_def)
  from autocorr_maximo [OF acf_exato_contrato h1 h2 h3] obtain r lag where
    r: "acf_exato (np_diff [0, 1, 0, 1, 0]) 3 = Inr r"
    and res: "calcula_autocorr_diff acf_exato [0, 1, 0, 1, 0] 360 = (\<bar>r ! lag\<bar>, int lag)"
    and lag: "1 \<le> lag" "int lag \<le> 3"
    and ge: "\<forall>k. 1 \<le> k \<and> int k \<le> 3 \<longrightarrow> \<bar>r ! k\<bar> \<le> \<bar>r ! lag\<bar>"
    unfolding m by blast
  from r v have rv: "r = [1, - (3 / 4), 1 / 2, - (1 / 4)]" by simp
  from ge have "\<bar>r ! 1\<bar> \<le> \<bar>r ! lag\<bar>" by simp
  moreover from lag have "lag = 1 \<or> lag = 2 \<or> lag = 3" by linarith
  ultimately have "lag = 1" unfolding rv by auto
  with res rv have "calcula_autocorr_diff acf_exato [0, 1, 0, 1, 0] 360 = (3 / 4, 1)"
    by simp
  with acf_exato_contrato h1 h2 h3 v show ?thesis by blast
qed

theorem autocorr_maximo_counterexample:
  "calcula_autocorr_diff acf_exato [0, 1, 0, 1, 0] 0 = (0, 0)"
  by (simp add: calcula_autocorr_diff_def np_diff_def wrap64_def constante_def acf_exato_def
      acovf_def media_def slice_ate_def Let_def)

section \<open>Properties of the per-operator metrics\<close>

lemma metricas_grupos_Cons:
  "metricas_grupos acf ((c, grupo) # gs) =
     (if length grupo < 10 then metricas_grupos acf gs
      else \<lparr>cd_opr = c,
            autocorr_max_diff = Fin (fst (calcula_autocorr_diff acf (map QTD grupo) 360)),
            autocorr_lag = snd (calcula_autocorr_diff acf (map QTD grupo) 360),
            cv = calcula_cv (map QTD grupo), score_anomaly = None, anormal = None\<rparr>
           # metricas_grupos acf gs)"
  by (simp add: Let_def split: prod.splits)

lemma metricas_grupos_ops:
  "map cd_opr (metricas_grupos acf gs) = map fst (filter (\<lambda>g. 10 \<le> length (snd g)) gs)"
proof (induction gs)
  case Nil
  show ?case by simp
next
  case (Cons g gs)
  obtain c grupo where g: "g = (c, grupo)" by (cases g)
  show ?case unfolding g metricas_grupos_Cons using Cons.IH by simp
qed

lemma metricas_grupos_lag:
  assumes "r \<in> set (metricas_grupos acf gs)"
  shows "\<exists>grupo. (cd_opr r, grupo) \<in> set gs \<and> 10 \<le> length grupo
           \<and> autocorr_lag r = snd (calcula_autocorr_diff acf (map QTD grupo) 360)"
  using assms
proof (induction gs)
  case Nil
  then show ?case by simp
next
  case (Cons g gs)
  obtain c grupo where g: "g = (c, grupo)" by (cases g)
  show ?case
  proof (cases "r \<in> set (metricas_grupos acf gs)")
    case True
    with Cons.IH show ?thesis by auto
  next
    case False
    with Cons.prems have "\<not> length grupo < 10"
      and "r = \<lparr>cd_opr = c,
            autocorr_max_diff = Fin (fst (calcula_autocorr_diff acf (map QTD grupo) 360)),
            autocorr_lag = snd (calcula_autocorr_diff acf (map QTD grupo) 360),
            cv = calcula_cv (map QTD grupo), score_anomaly = None, anormal = None\<rparr>"
      unfolding g metricas_grupos_Cons by (auto split: if_splits)
    then show ?thesis unfolding g by auto
  qed
qed

lemma groupby_member:
  assumes "(c, grupo) \<in> set (groupby_CD_OPR dados)"
  shows "grupo = filter (\<lambda>r. CD_OPR r = c) dados" and "c \<in> CD_OPR ` set dados"
  using assms by (auto simp: groupby_CD_OPR_def)

lemma calcular_metricas_lag:
  assumes "r \<in> set (calcular_metricas_por_processo acf dados)"
  shows "10 \<le> length (serie_do_operador dados (cd_opr r))"
    and "autocorr_lag r = snd (calcula_autocorr_diff acf (serie_do_operador dados (cd_opr r)) 360)"
    and "cd_opr r \<in> CD_OPR ` set dados"
proof -
  let ?s = "sort_key (\<lambda>r. (CD_OPR r, MINUTO r)) dados"
  from assms have "r \<in> set (metricas_grupos acf (groupby_CD_OPR ?s))"
    by (simp add: calcular_metricas_por_processo_def)
  from metricas_grupos_lag [OF this] obtain grupo where
    g: "(cd_opr r, grupo) \<in> set (groupby_CD_OPR ?s)" "10 \<le> length grupo"
       "autocorr_lag r = snd (calcula_autocorr_diff acf (map QTD grupo) 360)"
    by blast
  from groupby_member [OF g(1)]
  have e: "grupo = filter (\<lambda>x. CD_OPR x = cd_opr r) ?s" and m: "cd_opr r \<in> CD_OPR ` set ?s"
    by simp_all
  from e g(2) show "10 \<le> length (serie_do_operador dados (cd_opr r))"
    by (simp add: serie_do_operador_def)
  from e g(3) show "autocorr_lag r
      = snd (calcula_autocorr_diff acf (serie_do_operador dados (cd_opr r)) 360)"
    by (simp add: serie_do_operador_def)
  from m show "cd_opr r \<in> CD_OPR ` set dados" by simp
qed

lemma autocorr_lag_limites:
  assumes "acf_contrato acf"
    and "2 \<le> length (np_diff serie)" and "\<not> constante (np_diff serie)" and "1 \<le> nlags"
  shows "1 \<le> snd (calcula_autocorr_diff acf serie nlags)"
    and "snd (calcula_autocorr_diff acf serie nlags)
           \<le> min nlags (int (length (np_diff serie)) - 1)"
proof -
  define m where "m = min nlags (int (length (np_diff serie)) - 1)"
  have m0: "0 \<le> m" and m2: "m < int (length (np_diff serie))"
    using assms(2,4) unfolding m_def by linarith+
  from acf_contrato_lags [OF assms(1,3) m0 m2] obtain r where
    r: "acf (np_diff serie) m = Inr r" "length r = nat m + 1"
    by blast
  let ?a = "map abs (drop 1 r)"
  have res: "calcula_autocorr_diff acf serie nlags = (np_max ?a, int (np_argmax ?a) + 1)"
    and len: "length ?a = nat m" and m: "1 \<le> m"
    using assms(2-4) m_def r by (rule autocorr_geral)+
  from len m have "?a \<noteq> []" by auto
  then have "np_argmax ?a < nat m" using np_argmax_less [of ?a] len by simp
  then have "int (np_argmax ?a) + 1 \<le> m" by linarith
  with res show "snd (calcula_autocorr_diff acf serie nlags)
      \<le> min nlags (int (length (np_diff serie)) - 1)"
    unfolding m_def by simp
  from res show "1 \<le> snd (calcula_autocorr_diff acf serie nlags)" by simp
qed

lemma autocorr_lag_nao_negativo: "0 \<le> snd (calcula_autocorr_diff acf serie nlags)"
  by (simp add: calcula_autocorr_diff_def Let_def split: sum.splits)

text \<open>
  Claim C8, as amended. Every record produced by \<open>calcular_metricas_por_processo\<close> has an
  integer \<open>autocorr_lag\<close> that is at least 0: it is 0 when the first difference of the
  operator's series (computed in int64) is constant, and otherwise, the library function
  returning one value per lag, between 1 and min(360, len(diff) - 1).
\<close>

theorem autocorr_lag_registro:
  assumes "r \<in> set (calcular_metricas_por_processo acf dados)"
  shows "0 \<le> autocorr_lag r
     \<and> (constante (np_diff (serie_do_operador dados (cd_opr r))) \<longrightarrow> autocorr_lag r = 0)
     \<and> (acf_contrato acf \<and> \<not> constante (np_diff (serie_do_operador dados (cd_opr r))) \<longrightarrow>
          1 \<le> autocorr_lag r
          \<and> autocorr_lag r
              \<le> min 360 (int (length (np_diff (serie_do_operador dados (cd_opr r)))) - 1))"
proof -
  let ?serie = "serie_do_operador dados (cd_opr r)"
  have len: "10 \<le> length ?serie"
    and lag: "autocorr_lag r = snd (calcula_autocorr_diff acf ?serie 360)"
    using assms by (rule calcular_metricas_lag)+
  from len have d: "2 \<le> length (np_diff ?serie)" by (simp add: length_np_diff)
  have nn: "0 \<le> autocorr_lag r"
    unfolding lag by (rule autocorr_lag_nao_negativo)
  have zero: "autocorr_lag r = 0" if "constante (np_diff ?serie)"
  proof -
    from that have "calcula_autocorr_diff acf ?serie 360 = (0, 0)"
      by (rule autocorr_diff_constante)
    with lag show ?thesis by simp
  qed
  have pos: "1 \<le> autocorr_lag r
      \<and> autocorr_lag r \<le> min 360 (int (length (np_diff ?serie)) - 1)"
    if c: "acf_contrato acf" and nc: "\<not> constante (np_diff ?serie)"
  proof -
    have "1 \<le> snd (calcula_autocorr_diff acf ?serie 360)"
      and "snd (calcula_autocorr_diff acf ?serie 360)
             \<le> min 360 (int (length (np_diff ?serie)) - 1)"
      using c d nc by (rule autocorr_lag_limites; simp)+
    with lag show ?thesis by simp
  qed
  from nn zero pos show ?thesis by blast
qed

theorem autocorr_lag_registro_counterexample:
  "map autocorr_lag (calcular_metricas_por_processo acf_exato
     [\<lparr>MINUTO = 0, CD_OPR = ''A'', QTD = 5\<rparr>, \<lparr>MINUTO = 1, CD_OPR = ''A'', QTD = 5\<rparr>,
      \<lparr>MINUTO = 2, CD_OPR = ''A'', QTD = 5\<rparr>, \<lparr>MINUTO = 3, CD_OPR = ''A'', QTD = 5\<rparr>,
      \<lparr>MINUTO = 4, CD_OPR = ''A'', QTD = 5\<rparr>, \<lparr>MINUTO = 5, CD_OPR = ''A'', QTD = 5\<rparr>,
      \<lparr>MINUTO = 6, CD_OPR = ''A'', QTD = 5\<rparr>, \<lparr>MINUTO = 7, CD_OPR = ''A'', QTD = 5\<rparr>,
      \<lparr>MINUTO = 8, CD_OPR = ''A'', QTD = 5\<rparr>, \<lparr>MINUTO = 9, CD_OPR = ''A'', QTD = 5\<rparr>]) = [0]"
  by (simp add: calcular_metricas_por_processo_def groupby_CD_OPR_def
      calcula_autocorr_diff_def np_diff_def wrap64_def constante_def)

theorem autocorr_lag_registro_witness:
  "calcular_metricas_por_processo acf_exato
     [\<lparr>MINUTO = 0, CD_OPR = ''B'', QTD = 0\<rparr>, \<lparr>MINUTO = 1, CD_OPR = ''B'', QTD = 1\<rparr>,
      \<lparr>MINUTO = 2, CD_OPR = ''B'', QTD = 0\<rparr>, \<lparr>MINUTO = 3, CD_OPR = ''B'', QTD = 1\<rparr>,
      \<lparr>MINUTO = 4, CD_OPR = ''B'', QTD = 0\<rparr>, \<lparr>MINUTO = 5, CD_OPR = ''B'', QTD = 1\<rparr>,
      \<lparr>MINUTO = 6, CD_OPR = ''B'', QTD = 0\<rparr>, \<lparr>MINUTO = 7, CD_OPR = ''B'', QTD = 1\<rparr>,
      \<lparr>MINUTO = 8, CD_OPR = ''B'', QTD = 0\<rparr>, \<lparr>MINUTO = 9, CD_OPR = ''B'', QTD = 1\<rparr>,
      \<lparr>MINUTO = 10, CD_OPR = ''B'', QTD = 0\<rparr>, \<lparr>MINUTO = 11, CD_OPR = ''B'', QTD = 1\<rparr>,
      \<lparr>MINUTO = 12, CD_OPR = ''B'', QTD = 0\<rparr>, \<lparr>MINUTO = 13, CD_OPR = ''B'', QTD = 1\<rparr>,
      \<lparr>MINUTO = 14, CD_OPR = ''B'', QTD = 0\<rparr>, \<lparr>MINUTO = 15, CD_OPR = ''B'', QTD = 1\<rparr>,
      \<lparr>MINUTO = 16, CD_OPR = ''B'', QTD = 0\<rparr>]
   = [\<lparr>cd_opr = ''B'',
       autocorr_max_diff = Fin (fst (calcula_autocorr_diff acf_exato
         [0, 1, 0, 1, 0, 1, 0, 1, 0, 1, 0, 1, 0, 1, 0, 1, 0] 360)),
       autocorr_lag = snd (calcula_autocorr_diff acf_exato
         [0, 1, 0, 1, 0, 1, 0, 1, 0, 1, 0, 1, 0, 1, 0, 1, 0] 360),
       cv = calcula_cv [0, 1, 0, 1, 0, 1, 0, 1, 0, 1, 0, 1, 0, 1, 0, 1, 0],
       score_anomaly = None, anormal = None\<rparr>]
   \<and> acf_contrato acf_exato
   \<and> \<not> constante (np_diff [0, 1, 0, 1, 0, 1, 0, 1, 0, 1, 0, 1, 0, 1, 0, 1, 0])
   \<and> 1 \<le> snd (calcula_autocorr_diff acf_exato
         [0, 1, 0, 1, 0, 1, 0, 1, 0, 1, 0, 1, 0, 1, 0, 1, 0] 360)
   \<and> snd (calcula_autocorr_diff acf_exato
         [0, 1, 0, 1, 0, 1, 0, 1, 0, 1, 0, 1, 0, 1, 0, 1, 0] 360) \<le> 15"
proof -
  let ?dados = "[\<lparr>MINUTO = 0, CD_OPR = ''B'', QTD = 0\<rparr>, \<lparr>MINUTO = 1, CD_OPR = ''B'', QTD = 1\<rparr>,
      \<lparr>MINUTO = 2, CD_OPR = ''B'', QTD = 0\<rparr>, \<lparr>MINUTO = 3, CD_OPR = ''B'', QTD = 1\<rparr>,
      \<lparr>MINUTO = 4, CD_OPR = ''B'', QTD = 0\<rparr>, \<lparr>MINUTO = 5, CD_OPR = ''B'', QTD = 1\<rparr>,
      \<lparr>MINUTO = 6, CD_OPR = ''B'', QTD = 0\<rparr>, \<lparr>MINUTO = 7, CD_OPR = ''B'', QTD = 1\<rparr>,
      \<lparr>MINUTO = 8, CD_OPR = ''B'', QTD = 0\<rparr>, \<lparr>MINUTO = 9, CD_OPR = ''B'', QTD = 1\<rparr>,
      \<lparr>MINUTO = 10, CD_OPR = ''B'', QTD = 0\<rparr>, \<lparr>MINUTO = 11, CD_OPR = ''B'', QTD = 1\<rparr>,
      \<lparr>MINUTO = 12, CD_OPR = ''B'', QTD = 0\<rparr>, \<lparr>MINUTO = 13, CD_OPR = ''B'', QTD = 1\<rparr>,
      \<lparr>MINUTO = 14, CD_OPR = ''B'', QTD = 0\<rparr>, \<lparr>MINUTO = 15, CD_OPR = ''B'', QTD = 1\<rparr>,
      \<lparr>MINUTO = 16, CD_OPR = ''B'', QTD = 0\<rparr>]"
  let ?serie = "[0, 1, 0, 1, 0, 1, 0, 1, 0, 1, 0, 1, 0, 1, 0, 1, 0] :: int list"
  let ?r = "\<lparr>cd_opr = ''B'',
       autocorr_max_diff = Fin (fst (calcula_autocorr_diff acf_exato ?serie 360)),
       autocorr_lag = snd (calcula_autocorr_diff acf_exato ?serie 360),
       cv = calcula_cv ?serie, score_anomaly = None, anormal = None\<rparr>"
  have tab: "calcular_metricas_por_processo acf_exato ?dados = [?r]"
    by (simp add: calcular_metricas_por_processo_def groupby_CD_OPR_def metricas_grupos_Cons
        del: metricas_grupos.simps(2))
  have s: "serie_do_operador ?dados ''B'' = ?serie"
    by (simp add: serie_do_operador_def)
  have nc: "\<not> constante (np_diff ?serie)"
    by (simp add: np_diff_def wrap64_def constante_def)
  have "?r \<in> set (calcular_metricas_por_processo acf_exato ?dados)"
    unfolding tab by simp
  from autocorr_lag_registro [OF this] s nc acf_exato_contrato
  have "1 \<le> snd (calcula_autocorr_diff acf_exato ?serie 360)
      \<and> snd (calcula_autocorr_diff acf_exato ?serie 360) \<le> 15"
    by (simp add: length_np_diff)
  with tab nc acf_exato_contrato show ?thesis by blast
qed

lemma CD_OPR_celula: "CD_OPR (celula df p) = snd p"
  by (cases p) (simp add: celula_def)

lemma length_filter_product_snd:
  "length (filter (\<lambda>p. snd p = c) (List.product ms ops))
     = length ms * length (filter (\<lambda>x. x = c) ops)"
  by (induction ms) (simp_all add: filter_map comp_def)

lemma length_filter_eq_distinct:
  assumes "distinct ops" and "c \<in> set ops"
  shows "length (filter (\<lambda>x. x = c) ops) = 1"
  using assms by (induction ops) (auto simp: filter_empty_conv)

lemma grupo_da_grade:
  assumes "c \<in> CD_OPR ` set df"
  shows "length (filter (\<lambda>r. CD_OPR r = c)
           (map (celula df)
             (List.product [Min (set (map MINUTO df))..Max (set (map MINUTO df))]
                (unique (map CD_OPR df)))))
         = n_minutos df"
proof -
  let ?ms = "[Min (set (map MINUTO df))..Max (set (map MINUTO df))]"
  let ?ops = "unique (map CD_OPR df)"
  have "length (filter (\<lambda>r. CD_OPR r = c) (map (celula df) (List.product ?ms ?ops)))
      = length (filter (\<lambda>p. snd p = c) (List.product ?ms ?ops))"
    by (simp add: filter_map comp_def CD_OPR_celula)
  also have "\<dots> = length ?ms * length (filter (\<lambda>x. x = c) ?ops)"
    by (rule length_filter_product_snd)
  also have "length (filter (\<lambda>x. x = c) ?ops) = 1"
    using assms by (intro length_filter_eq_distinct) (simp_all add: distinct_unique set_unique)
  finally show ?thesis by (simp add: n_minutos_def)
qed

lemma operadores_da_grade:
  "CD_OPR ` set (map (celula df) (List.product ms ops)) \<subseteq> set ops"
  by (auto simp: CD_OPR_celula)

lemma length_serie_do_operador:
  "length (serie_do_operador dados c) = length (filter (\<lambda>r. CD_OPR r = c) dados)"
  by (simp add: serie_do_operador_def filter_sort)

lemma series_da_grade:
  assumes "extrair_dados df = Inr grid" and "c \<in> CD_OPR ` set grid"
  shows "length (serie_do_operador grid c) = n_minutos df"
proof (cases "df = []")
  case True
  with assms show ?thesis by (simp add: extrair_dados_def)
next
  case False
  let ?ps = "List.product [Min (set (map MINUTO df))..Max (set (map MINUTO df))]
               (unique (map CD_OPR df))"
  from assms(1) False have d: "distinct (map chave df)"
    by (auto simp: extrair_dados_def Let_def split: if_splits)
  with False assms(1) have g: "grid = map (celula df) ?ps"
    by (simp add: extrair_dados_grid)
  from assms(2) have "c \<in> CD_OPR ` set (map (celula df) ?ps)"
    unfolding g .
  with operadores_da_grade have "c \<in> set (unique (map CD_OPR df))" by blast
  then have "c \<in> CD_OPR ` set df" by (simp add: set_unique)
  then show ?thesis
    unfolding length_serie_do_operador g by (rule grupo_da_grade)
qed

lemma metricas_todos_ou_nenhum:
  assumes "\<forall>c \<in> CD_OPR ` set dados. length (serie_do_operador dados c) = n"
  shows "10 \<le> n \<longrightarrow>
           map cd_opr (calcular_metricas_por_processo acf dados) = sort (remdups (map CD_OPR dados))"
    and "n < 10 \<longrightarrow> calcular_metricas_por_processo acf dados = []"
proof -
  let ?s = "sort_key (\<lambda>r. (CD_OPR r, MINUTO r)) dados"
  let ?gs = "groupby_CD_OPR ?s"
  have ops: "sort (remdups (map CD_OPR ?s)) = sort (remdups (map CD_OPR dados))"
    by (simp add: sorted_list_of_set_sort_remdups [symmetric])
  have len: "length (snd g) = n" if "g \<in> set ?gs" for g
  proof -
    obtain c grupo where cg: "g = (c, grupo)" by (cases g)
    from groupby_member [of c grupo ?s] that cg
    have "grupo = filter (\<lambda>r. CD_OPR r = c) ?s" and "c \<in> CD_OPR ` set dados"
      by simp_all
    moreover from this assms have "length (serie_do_operador dados c) = n" by blast
    ultimately show ?thesis using cg by (simp add: serie_do_operador_def)
  qed
  have m: "map cd_opr (calcular_metricas_por_processo acf dados)
      = map fst (filter (\<lambda>g. 10 \<le> length (snd g)) ?gs)"
    by (simp add: calcular_metricas_por_processo_def metricas_grupos_ops)
  show "10 \<le> n \<longrightarrow>
      map cd_opr (calcular_metricas_por_processo acf dados) = sort (remdups (map CD_OPR dados))"
  proof
    assume "10 \<le> n"
    with len have "filter (\<lambda>g. 10 \<le> length (snd g)) ?gs = ?gs"
      by (simp add: filter_id_conv)
    with m have "map cd_opr (calcular_metricas_por_processo acf dados) = map fst ?gs" by simp
    also have "\<dots> = sort (remdups (map CD_OPR ?s))"
      by (simp add: groupby_CD_OPR_def comp_def)
    finally show "map cd_opr (calcular_metricas_por_processo acf dados)
        = sort (remdups (map CD_OPR dados))"
      using ops by simp
  qed
  show "n < 10 \<longrightarrow> calcular_metricas_por_processo acf dados = []"
  proof
    assume "n < 10"
    with len have "filter (\<lambda>g. 10 \<le> length (snd g)) ?gs = []"
      by (auto simp: filter_empty_conv)
    with m have "map cd_opr (calcular_metricas_por_processo acf dados) = []" by simp
    then show "calcular_metricas_por_processo acf dados = []" by simp
  qed
qed

text \<open>
  Claim C10. For every table produced by \<open>extrair_dados\<close>, the series of every operator
  (its group in \<open>calcular_metricas_por_processo\<close>) has the same length, the number of
  minutes of the global span; so the test for fewer than 10 points keeps every operator (the
  metric table lists all of them, in sorted order) or skips every operator (the metric
  table is empty).
\<close>

theorem series_mesmo_comprimento:
  assumes "extrair_dados df = Inr grid"
  shows "(\<forall>c \<in> CD_OPR ` set grid. length (serie_do_operador grid c) = n_minutos df)
     \<and> (map cd_opr (calcular_metricas_por_processo acf grid) = sort (remdups (map CD_OPR grid))
          \<or> calcular_metricas_por_processo acf grid = [])
     \<and> (10 \<le> n_minutos df \<longrightarrow>
          map cd_opr (calcular_metricas_por_processo acf grid) = sort (remdups (map CD_OPR grid)))
     \<and> (n_minutos df < 10 \<longrightarrow> calcular_metricas_por_processo acf grid = [])"
proof -
  have len: "\<forall>c \<in> CD_OPR ` set grid. length (serie_do_operador grid c) = n_minutos df"
    using assms by (blast intro: series_da_grade)
  have a: "10 \<le> n_minutos df \<longrightarrow>
      map cd_opr (calcular_metricas_por_processo acf grid) = sort (remdups (map CD_OPR grid))"
    and b: "n_minutos df < 10 \<longrightarrow> calcular_metricas_por_processo acf grid = []"
    using len by (rule metricas_todos_ou_nenhum)+
  from a b have "map cd_opr (calcular_metricas_por_processo acf grid)
        = sort (remdups (map CD_OPR grid))
      \<or> calcular_metricas_por_processo acf grid = []"
    by (cases "10 \<le> n_minutos df") simp_all
  with len a b show ?thesis by blast
qed

theorem series_mesmo_comprimento_witness:
  "extrair_dados [\<lparr>MINUTO = 0, CD_OPR = ''A'', QTD = 3\<rparr>, \<lparr>MINUTO = 9, CD_OPR = ''B'', QTD = 4\<rparr>]
   = Inr
     [\<lparr>MINUTO = 0, CD_OPR = ''A'', QTD = 3\<rparr>, \<lparr>MINUTO = 0, CD_OPR = ''B'', QTD = 0\<rparr>,
      \<lparr>MINUTO = 1, CD_OPR = ''A'', QTD = 0\<rparr>, \<lparr>MINUTO = 1, CD_OPR = ''B'', QTD = 0\<rparr>,
      \<lparr>MINUTO = 2, CD_OPR = ''A'', QTD = 0\<rparr>, \<lparr>MINUTO = 2, CD_OPR = ''B'', QTD = 0\<rparr>,
      \<lparr>MINUTO = 3, CD_OPR = ''A'', QTD = 0\<rparr>, \<lparr>MINUTO = 3, CD_OPR = ''B'', QTD = 0\<rparr>,
      \<lparr>MINUTO = 4, CD_OPR = ''A'', QTD = 0\<rparr>, \<lparr>MINUTO = 4, CD_OPR = ''B'', QTD = 0\<rparr>,
      \<lparr>MINUTO = 5, CD_OPR = ''A'', QTD = 0\<rparr>, \<lparr>MINUTO = 5, CD_OPR = ''B'', QTD = 0\<rparr>,
      \<lparr>MINUTO = 6, CD_OPR = ''A'', QTD = 0\<rparr>, \<lparr>MINUTO = 6, CD_OPR = ''B'', QTD = 0\<rparr>,
      \<lparr>MINUTO = 7, CD_OPR = ''A'', QTD = 0\<rparr>, \<lparr>MINUTO = 7, CD_OPR = ''B'', QTD = 0\<rparr>,
      \<lparr>MINUTO = 8, CD_OPR = ''A'', QTD = 0\<rparr>, \<lparr>MINUTO = 8, CD_OPR = ''B'', QTD = 0\<rparr>,
      \<lparr>MINUTO = 9, CD_OPR = ''A'', QTD = 0\<rparr>, \<lparr>MINUTO = 9, CD_OPR = ''B'', QTD = 4\<rparr>]
   \<and> n_minutos [\<lparr>MINUTO = 0, CD_OPR = ''A'', QTD = 3\<rparr>, \<lparr>MINUTO = 9, CD_OPR = ''B'', QTD = 4\<rparr>]
     = 10
   \<and> length (serie_do_operador
     [\<lparr>MINUTO = 0, CD_OPR = ''A'', QTD = 3\<rparr>, \<lparr>MINUTO = 0, CD_OPR = ''B'', QTD = 0\<rparr>,
      \<lparr>MINUTO = 1, CD_OPR = ''A'', QTD = 0\<rparr>, \<lparr>MINUTO = 1, CD_OPR = ''B'', QTD = 0\<rparr>,
      \<lparr>MINUTO = 2, CD_OPR = ''A'', QTD = 0\<rparr>, \<lparr>MINUTO = 2, CD_OPR = ''B'', QTD = 0\<rparr>,
      \<lparr>MINUTO = 3, CD_OPR = ''A'', QTD = 0\<rparr>, \<lparr>MINUTO = 3, CD_OPR = ''B'', QTD = 0\<rparr>,
      \<lparr>MINUTO = 4, CD_OPR = ''A'', QTD = 0\<rparr>, \<lparr>MINUTO = 4, CD_OPR = ''B'', QTD = 0\<rparr>,
      \<lparr>MINUTO = 5, CD_OPR = ''A'', QTD = 0\<rparr>, \<lparr>MINUTO = 5, CD_OPR = ''B'', QTD = 0\<rparr>,
      \<lparr>MINUTO = 6, CD_OPR = ''A'', QTD = 0\<rparr>, \<lparr>MINUTO = 6, CD_OPR = ''B'', QTD = 0\<rparr>,
      \<lparr>MINUTO = 7, CD_OPR = ''A'', QTD = 0\<rparr>, \<lparr>MINUTO = 7, CD_OPR = ''B'', QTD = 0\<rparr>,
      \<lparr>MINUTO = 8, CD_OPR = ''A'', QTD = 0\<rparr>, \<lparr>MINUTO = 8, CD_OPR = ''B'', QTD = 0\<rparr>,
      \<lparr>MINUTO = 9, CD_OPR = ''A'', QTD = 0\<rparr>, \<lparr>MINUTO = 9, CD_OPR = ''B'', QTD = 4\<rparr>] ''A'') = 10
   \<and> map cd_opr (calcular_metricas_por_processo acf_exato
     [\<lparr>MINUTO = 0, CD_OPR = ''A'', QTD = 3\<rparr>, \<lparr>MINUTO = 0, CD_OPR = ''B'', QTD = 0\<rparr>,
      \<lparr>MINUTO = 1, CD_OPR = ''A'', QTD = 0\<rparr>, \<lparr>MINUTO = 1, CD_OPR = ''B'', QTD = 0\<rparr>,
      \<lparr>MINUTO = 2, CD_OPR = ''A'', QTD = 0\<rparr>, \<lparr>MINUTO = 2, CD_OPR = ''B'', QTD = 0\<rparr>,
      \<lparr>MINUTO = 3, CD_OPR = ''A'', QTD = 0\<rparr>, \<lparr>MINUTO = 3, CD_OPR = ''B'', QTD = 0\<rparr>,
      \<lparr>MINUTO = 4, CD_OPR = ''A'', QTD = 0\<rparr>, \<lparr>MINUTO = 4, CD_OPR = ''B'', QTD = 0\<rparr>,
      \<lparr>MINUTO = 5, CD_OPR = ''A'', QTD = 0\<rparr>, \<lparr>MINUTO = 5, CD_OPR = ''B'', QTD = 0\<rparr>,
      \<lparr>MINUTO = 6, CD_OPR = ''A'', QTD = 0\<rparr>, \<lparr>MINUTO = 6, CD_OPR = ''B'', QTD = 0\<rparr>,
      \<lparr>MINUTO = 7, CD_OPR = ''A'', QTD = 0\<rparr>, \<lparr>MINUTO = 7, CD_OPR = ''B'', QTD = 0\<rparr>,
      \<lparr>MINUTO = 8, CD_OPR = ''A'', QTD = 0\<rparr>, \<lparr>MINUTO = 8, CD_OPR = ''B'', QTD = 0\<rparr>,
      \<lparr>MINUTO = 9, CD_OPR = ''A'', QTD = 0\<rparr>, \<lparr>MINUTO = 9, CD_OPR = ''B'', QTD = 4\<rparr>]) = [''A'', ''B'']"
proof -
  let ?df = "[\<lparr>MINUTO = 0, CD_OPR = ''A'', QTD = 3\<rparr>, \<lparr>MINUTO = 9, CD_OPR = ''B'', QTD = 4\<rparr>]"
  let ?grid = "[\<lparr>MINUTO = 0, CD_OPR = ''A'', QTD = 3\<rparr>, \<lparr>MINUTO = 0, CD_OPR = ''B'', QTD = 0\<rparr>,
      \<lparr>MINUTO = 1, CD_OPR = ''A'', QTD = 0\<rparr>, \<lparr>MINUTO = 1, CD_OPR = ''B'', QTD = 0\<rparr>,
      \<lparr>MINUTO = 2, CD_OPR = ''A'', QTD = 0\<rparr>, \<lparr>MINUTO = 2, CD_OPR = ''B'', QTD = 0\<rparr>,
      \<lparr>MINUTO = 3, CD_OPR = ''A'', QTD = 0\<rparr>, \<lparr>MINUTO = 3, CD_OPR = ''B'', QTD = 0\<rparr>,
      \<lparr>MINUTO = 4, CD_OPR = ''A'', QTD = 0\<rparr>, \<lparr>MINUTO = 4, CD_OPR = ''B'', QTD = 0\<rparr>,
      \<lparr>MINUTO = 5, CD_OPR = ''A'', QTD = 0\<rparr>, \<lparr>MINUTO = 5, CD_OPR = ''B'', QTD = 0\<rparr>,
      \<lparr>MINUTO = 6, CD_OPR = ''A'', QTD = 0\<rparr>, \<lparr>MINUTO = 6, CD_OPR = ''B'', QTD = 0\<rparr>,
      \<lparr>MINUTO = 7, CD_OPR = ''A'', QTD = 0\<rparr>, \<lparr>MINUTO = 7, CD_OPR = ''B'', QTD = 0\<rparr>,
      \<lparr>MINUTO = 8, CD_OPR = ''A'', QTD = 0\<rparr>, \<lparr>MINUTO = 8, CD_OPR = ''B'', QTD = 0\<rparr>,
      \<lparr>MINUTO = 9, CD_OPR = ''A'', QTD = 0\<rparr>, \<lparr>MINUTO = 9, CD_OPR = ''B'', QTD = 4\<rparr>]"
  have up: "[0..9] = [0, 1, 2, 3, 4, 5, 6, 7, 8, 9 :: int]"
    by (simp add: upto_rec1)
  have e: "extrair_dados ?df = Inr ?grid"
    by (simp add: extrair_dados_def chave_def unique_def celula_def up)
  have n: "n_minutos ?df = 10" by (simp add: n_minutos_def)
  have a: "''A'' \<in> CD_OPR ` set ?grid" by simp
  have o: "sort (remdups (map CD_OPR ?grid)) = [''A'', ''B'']" by simp
  from series_mesmo_comprimento [OF e] a n o
  have "length (serie_do_operador ?grid ''A'') = 10
      \<and> map cd_opr (calcular_metricas_por_processo acf_exato ?grid) = [''A'', ''B'']"
    by simp
  with e n show ?thesis by blast
qed

section \<open>Properties of the detection\<close>

lemma replace_inf_not_inf: "replace_inf v \<noteq> PInf" "replace_inf v \<noteq> NInf"
  by (cases v; simp add: replace_inf_def)+

lemma replace_inf_NaN_iff: "replace_inf v \<noteq> NaN \<longleftrightarrow> is_fin v"
  by (cases v) (simp_all add: replace_inf_def is_fin_def)

lemma pontuar_fields:
  "cd_opr (pontuar r) = cd_opr r"
  "autocorr_lag (pontuar r) = autocorr_lag r"
  "cv (pontuar r) = replace_inf (cv r)"
  "autocorr_max_diff (pontuar r) = replace_inf (autocorr_max_diff r)"
  "score_anomaly (pontuar r) = Some (replace_inf (score r))"
  "anormal (pontuar r) = anormal r"
  by (simp_all add: pontuar_def replace_inf_row_def score_def)

lemma pontuar_valido_iff: "score_anomaly (pontuar r) \<noteq> Some NaN \<longleftrightarrow> is_fin (score r)"
  by (simp add: pontuar_fields replace_inf_NaN_iff)

lemma validos_filter: "validos df = map pontuar (filter (\<lambda>r. is_fin (score r)) df)"
  by (simp add: validos_def filter_map comp_def pontuar_valido_iff)

lemma validos_score:
  assumes "r \<in> set (validos df)"
  shows "score_anomaly r = Some (Fin (score_val r))"
proof -
  from assms obtain r0 where r0: "r = pontuar r0" "is_fin (score r0)"
    by (auto simp: validos_filter)
  then obtain a where "score r0 = Fin a" by (cases "score r0") (simp_all add: is_fin_def)
  with r0(1) show ?thesis
    by (simp add: pontuar_fields score_val_def replace_inf_def)
qed

lemma score_val_pontuar:
  "map score_val (map pontuar (filter (\<lambda>r. is_fin (score r)) df))
     = List.map_filter (\<lambda>r. case score r of Fin a \<Rightarrow> Some a | _ \<Rightarrow> None) df"
proof (induction df)
  case Nil
  show ?case by (simp add: map_filter_simps)
next
  case (Cons r df)
  show ?case
    using Cons.IH
    by (cases "score r")
       (simp_all add: map_filter_simps is_fin_def score_val_def pontuar_fields replace_inf_def)
qed

lemma score_val_validos: "map score_val (validos df) = scores_validos df"
  unfolding validos_filter scores_validos_def by (rule score_val_pontuar)

lemma detectar_anomalias_vazio:
  "detectar_anomalias [] sigma = ([], ([], NaN, NaN, NaN))"
  by (simp add: detectar_anomalias_def)

lemma detectar_anomalias_sem_validos:
  assumes "validos df = []"
  shows "detectar_anomalias df sigma = ([], ([], NaN, NaN, NaN))"
proof (cases "df = []")
  case True
  then show ?thesis by (simp add: detectar_anomalias_vazio)
next
  case False
  have "filter (\<lambda>r. score_anomaly r \<noteq> Some NaN)
          (map replace_inf_row
            (map (\<lambda>r. r\<lparr>score_anomaly := Some (fmul (cv r) (autocorr_max_diff r))\<rparr>) df))
        = validos df"
    by (simp add: validos_def pontuar_def [abs_def] comp_def)
  with assms False show ?thesis
    by (simp add: detectar_anomalias_def Let_def)
qed

lemma detectar_anomalias_validos:
  assumes "validos df \<noteq> []"
  shows "detectar_anomalias df sigma =
     (let mediana = median (scores_validos df);
          mad = calcula_mad (scores_validos df);
          limite = (if mad = 0 then mediana else mediana + sigma * mad);
          df4 = map (\<lambda>r. r\<lparr>anormal := Some (mad \<noteq> 0 \<and> score_val r > limite)\<rparr>) (validos df)
      in (df4, (sort_key (\<lambda>r. - score_val r) df4, Fin mediana, Fin mad, Fin limite)))"
proof -
  from assms have ne: "df \<noteq> []" by (auto simp: validos_def)
  have v: "filter (\<lambda>r. score_anomaly r \<noteq> Some NaN)
          (map replace_inf_row
            (map (\<lambda>r. r\<lparr>score_anomaly := Some (fmul (cv r) (autocorr_max_diff r))\<rparr>) df))
        = validos df"
    by (simp add: validos_def pontuar_def [abs_def] comp_def)
  show ?thesis
    unfolding detectar_anomalias_def Let_def v score_val_validos
    using assms ne by simp
qed

lemma validos_Nil_iff: "validos df = [] \<longleftrightarrow> scores_validos df = []"
proof -
  have "map score_val (validos df) = [] \<longleftrightarrow> scores_validos df = []"
    by (simp only: score_val_validos)
  then show ?thesis by simp
qed

text \<open>The caller's table and the returned table, when some score is finite.\<close>

lemma detectar_anomalias_partes:
  assumes "detectar_anomalias df sigma = (df', tbl, mediana, mad, limite)"
    and "scores_validos df \<noteq> []"
  shows "mediana = Fin (median (scores_validos df))"
    and "mad = Fin (calcula_mad (scores_validos df))"
    and "limite = Fin (if calcula_mad (scores_validos df) = 0 then median (scores_validos df)
                       else median (scores_validos df) + sigma * calcula_mad (scores_validos df))"
    and "df' = map (\<lambda>r. r\<lparr>anormal := Some (calcula_mad (scores_validos df) \<noteq> 0
                   \<and> score_val r > median (scores_validos df)
                                     + sigma * calcula_mad (scores_validos df))\<rparr>) (validos df)"
    and "tbl = sort_key (\<lambda>r. - score_val r) df'"
proof -
  from assms(2) have v: "validos df \<noteq> []" by (simp add: validos_Nil_iff)
  note e = assms(1) [unfolded detectar_anomalias_validos [OF v] Let_def]
  from e show "mediana = Fin (median (scores_validos df))" by simp
  from e show "mad = Fin (calcula_mad (scores_validos df))" by simp
  from e show "limite = Fin (if calcula_mad (scores_validos df) = 0
                       then median (scores_validos df)
                       else median (scores_validos df) + sigma * calcula_mad (scores_validos df))"
    by simp
  from e show d: "df' = map (\<lambda>r. r\<lparr>anormal := Some (calcula_mad (scores_validos df) \<noteq> 0
                   \<and> score_val r > median (scores_validos df)
                                     + sigma * calcula_mad (scores_validos df))\<rparr>) (validos df)"
    by (auto split: if_splits)
  from e show "tbl = sort_key (\<lambda>r. - score_val r) df'"
    unfolding d by (auto split: if_splits)
qed

lemma detectar_anomalias_partes_vazio:
  assumes "detectar_anomalias df sigma = (df', tbl, mediana, mad, limite)"
    and "scores_validos df = []"
  shows "df' = []" and "tbl = []"
  using assms detectar_anomalias_sem_validos [of df sigma]
  by (simp_all add: validos_Nil_iff)

lemma flag_fields:
  "cd_opr (r\<lparr>anormal := b\<rparr>) = cd_opr r"
  "score_val (r\<lparr>anormal := b\<rparr>) = score_val r"
  "score_anomaly (r\<lparr>anormal := b\<rparr>) = score_anomaly r"
  by (simp_all add: score_val_def)

text \<open>Two metric tables evaluated: one with an infinite \<open>cv\<close>, one whose MAD is 0.\<close>

lemma exemplo_mediana: "median [5, 10, 1000] = 10"
  by (simp add: median_def)

lemma exemplo_mad: "calcula_mad [5, 10, 1000] = 5 / mad_c"
  by (simp add: calcula_mad_def median_def mad_c_def)

lemma exemplo_mediana_mad0: "median [5, 5, 5, 1000] = 5"
  by (simp add: median_def)

lemma exemplo_mad0: "calcula_mad [5, 5, 5, 1000] = 0"
  by (simp add: calcula_mad_def median_def mad_c_def)

lemma exemplo_scores:
  "scores_validos
     [\<lparr>cd_opr = ''A'', autocorr_max_diff = Fin 1, autocorr_lag = 1, cv = PInf,
     score_anomaly = None, anormal = None\<rparr>,
    \<lparr>cd_opr = ''B'', autocorr_max_diff = Fin (1 / 2), autocorr_lag = 1, cv = Fin 10,
     score_anomaly = None, anormal = None\<rparr>,
    \<lparr>cd_opr = ''C'', autocorr_max_diff = Fin (1 / 2), autocorr_lag = 2, cv = Fin 20,
     score_anomaly = None, anormal = None\<rparr>,
    \<lparr>cd_opr = ''D'', autocorr_max_diff = Fin (1 / 2), autocorr_lag = 3, cv = Fin 2000,
     score_anomaly = None, anormal = None\<rparr>] = [5, 10, 1000]"
  by (simp add: scores_validos_def score_def map_filter_simps inf_signed_def)

lemma exemplo_scores_mad0:
  "scores_validos
     [\<lparr>cd_opr = ''B'', autocorr_max_diff = Fin (1 / 2), autocorr_lag = 1, cv = Fin 10,
     score_anomaly = None, anormal = None\<rparr>,
    \<lparr>cd_opr = ''C'', autocorr_max_diff = Fin (1 / 2), autocorr_lag = 2, cv = Fin 10,
     score_anomaly = None, anormal = None\<rparr>,
    \<lparr>cd_opr = ''D'', autocorr_max_diff = Fin 1, autocorr_lag = 3, cv = Fin 5,
     score_anomaly = None, anormal = None\<rparr>,
    \<lparr>cd_opr = ''E'', autocorr_max_diff = Fin (1 / 2), autocorr_lag = 4, cv = Fin 2000,
     score_anomaly = None, anormal = None\<rparr>] = [5, 5, 5, 1000]"
  by (simp add: scores_validos_def score_def map_filter_simps)

lemma exemplo_detectar:
  "detectar_anomalias
     [\<lparr>cd_opr = ''A'', autocorr_max_diff = Fin 1, autocorr_lag = 1, cv = PInf,
     score_anomaly = None, anormal = None\<rparr>,
    \<lparr>cd_opr = ''B'', autocorr_max_diff = Fin (1 / 2), autocorr_lag = 1, cv = Fin 10,
     score_anomaly = None, anormal = None\<rparr>,
    \<lparr>cd_opr = ''C'', autocorr_max_diff = Fin (1 / 2), autocorr_lag = 2, cv = Fin 20,
     score_anomaly = None, anormal = None\<rparr>,
    \<lparr>cd_opr = ''D'', autocorr_max_diff = Fin (1 / 2), autocorr_lag = 3, cv = Fin 2000,
     score_anomaly = None, anormal = None\<rparr>] 3
   = ([\<lparr>cd_opr = ''B'', autocorr_max_diff = Fin (1 / 2), autocorr_lag = 1, cv = Fin 10,
     score_anomaly = Some (Fin 5), anormal = Some False\<rparr>,
    \<lparr>cd_opr = ''C'', autocorr_max_diff = Fin (1 / 2), autocorr_lag = 2, cv = Fin 20,
     score_anomaly = Some (Fin 10), anormal = Some False\<rparr>,
    \<lparr>cd_opr = ''D'', autocorr_max_diff = Fin (1 / 2), autocorr_lag = 3, cv = Fin 2000,
     score_anomaly = Some (Fin 1000), anormal = Some True\<rparr>],
      [\<lparr>cd_opr = ''D'', autocorr_max_diff = Fin (1 / 2), autocorr_lag = 3, cv = Fin 2000,
     score_anomaly = Some (Fin 1000), anormal = Some True\<rparr>,
    \<lparr>cd_opr = ''C'', autocorr_max_diff = Fin (1 / 2), autocorr_lag = 2, cv = Fin 20,
     score_anomaly = Some (Fin 10), anormal = Some False\<rparr>,
    \<lparr>cd_opr = ''B'', autocorr_max_diff = Fin (1 / 2), autocorr_lag = 1, cv = Fin 10,
     score_anomaly = Some (Fin 5), anormal = Some False\<rparr>],
      Fin 10, Fin (5 / mad_c), Fin (10 + 3 * (5 / mad_c)))"
  by (simp add: detectar_anomalias_def replace_inf_row_def replace_inf_def inf_signed_def
      score_val_def exemplo_mediana exemplo_mad mad_c_def)

lemma exemplo_detectar_mad0:
  "detectar_anomalias
     [\<lparr>cd_opr = ''B'', autocorr_max_diff = Fin (1 / 2), autocorr_lag = 1, cv = Fin 10,
     score_anomaly = None, anormal = None\<rparr>,
    \<lparr>cd_opr = ''C'', autocorr_max_diff = Fin (1 / 2), autocorr_lag = 2, cv = Fin 10,
     score_anomaly = None, anormal = None\<rparr>,
    \<lparr>cd_opr = ''D'', autocorr_max_diff = Fin 1, autocorr_lag = 3, cv = Fin 5,
     score_anomaly = None, anormal = None\<rparr>,
    \<lparr>cd_opr = ''E'', autocorr_max_diff = Fin (1 / 2), autocorr_lag = 4, cv = Fin 2000,
     score_anomaly = None, anormal = None\<rparr>] 3
   = ([\<lparr>cd_opr = ''B'', autocorr_max_diff = Fin (1 / 2), autocorr_lag = 1, cv = Fin 10,
     score_anomaly = Some (Fin 5), anormal = Some False\<rparr>,
    \<lparr>cd_opr = ''C'', autocorr_max_diff = Fin (1 / 2), autocorr_lag = 2, cv = Fin 10,
     score_anomaly = Some (Fin 5), anormal = Some False\<rparr>,
    \<lparr>cd_opr = ''D'', autocorr_max_diff = Fin 1, autocorr_lag = 3, cv = Fin 5,
     score_anomaly = Some (Fin 5), anormal = Some False\<rparr>,
    \<lparr>cd_opr = ''E'', autocorr_max_diff = Fin (1 / 2), autocorr_lag = 4, cv = Fin 2000,
     score_anomaly = Some (Fin 1000), anormal = Some False\<rparr>],
      [\<lparr>cd_opr = ''E'', autocorr_max_diff = Fin (1 / 2), autocorr_lag = 4, cv = Fin 2000,
     score_anomaly = Some (Fin 1000), anormal = Some False\<rparr>,
    \<lparr>cd_opr = ''B'', autocorr_max_diff = Fin (1 / 2), autocorr_lag = 1, cv = Fin 10,
     score_anomaly = Some (Fin 5), anormal = Some False\<rparr>,
    \<lparr>cd_opr = ''C'', autocorr_max_diff = Fin (1 / 2), autocorr_lag = 2, cv = Fin 10,
     score_anomaly = Some (Fin 5), anormal = Some False\<rparr>,
    \<lparr>cd_opr = ''D'', autocorr_max_diff = Fin 1, autocorr_lag = 3, cv = Fin 5,
     score_anomaly = Some (Fin 5), anormal = Some False\<rparr>],
      Fin 5, Fin 0, Fin 5)"
  by (simp add: detectar_anomalias_def replace_inf_row_def replace_inf_def
      score_val_def exemplo_mediana_mad0 exemplo_mad0)

text \<open>
  Claim C6. In \<open>detectar_anomalias\<close> the rows whose score \<open>cv * autocorr_max_diff\<close> is
  infinite or NaN are excluded: the rows of the returned table are exactly the rows with a
  finite score, median, MAD and limit are computed from the finite scores only, and an
  operator with a non-finite score has no row in the returned table (its code being its own),
  so it is never classified as anomalous.
\<close>

theorem scores_invalidos_excluidos:
  assumes "detectar_anomalias df sigma = (df', tbl, mediana, mad, limite)"
  shows "mset (map cd_opr tbl) = mset (map cd_opr (filter (\<lambda>r. is_fin (score r)) df))
     \<and> mset (map score_val tbl) = mset (scores_validos df)
     \<and> (\<forall>r \<in> set tbl. score_anomaly r = Some (Fin (score_val r)))
     \<and> (scores_validos df \<noteq> [] \<longrightarrow>
          mediana = Fin (median (scores_validos df))
          \<and> mad = Fin (calcula_mad (scores_validos df))
          \<and> limite = Fin (if calcula_mad (scores_validos df) = 0
                           then median (scores_validos df)
                           else median (scores_validos df)
                                + sigma * calcula_mad (scores_validos df)))
     \<and> (distinct (map cd_opr df) \<longrightarrow>
          (\<forall>r \<in> set df. \<not> is_fin (score r) \<longrightarrow>
             (\<forall>t \<in> set tbl. cd_opr t \<noteq> cd_opr r)))"
proof (cases "scores_validos df = []")
  case True
  have t: "tbl = []" using assms True by (rule detectar_anomalias_partes_vazio)
  have "map score_val (map pontuar (filter (\<lambda>r. is_fin (score r)) df)) = []"
    using True unfolding score_val_validos [symmetric] validos_filter .
  then have "filter (\<lambda>r. is_fin (score r)) df = []" by simp
  with t True show ?thesis by simp
next
  case False
  let ?flag = "\<lambda>r. r\<lparr>anormal := Some (calcula_mad (scores_validos df) \<noteq> 0
                   \<and> score_val r > median (scores_validos df)
                                     + sigma * calcula_mad (scores_validos df))\<rparr>"
  have d: "df' = map ?flag (validos df)"
    and t: "tbl = sort_key (\<lambda>r. - score_val r) df'"
    using assms False by (rule detectar_anomalias_partes)+
  have st: "set tbl = set df'" and mt: "mset tbl = mset df'"
    unfolding t by simp_all
  have ops': "map cd_opr df' = map cd_opr (filter (\<lambda>r. is_fin (score r)) df)"
    unfolding d validos_filter by (simp add: comp_def flag_fields pontuar_fields)
  have "mset (map cd_opr tbl) = mset (map cd_opr df')"
    using mt by (simp only: mset_map)
  with ops' have ops: "mset (map cd_opr tbl)
      = mset (map cd_opr (filter (\<lambda>r. is_fin (score r)) df))"
    by simp
  have "map score_val df' = map score_val (validos df)"
    unfolding d by (simp add: comp_def flag_fields)
  then have "map score_val df' = scores_validos df" by (simp add: score_val_validos)
  moreover have "mset (map score_val tbl) = mset (map score_val df')"
    using mt by (simp only: mset_map)
  ultimately have sc: "mset (map score_val tbl) = mset (scores_validos df)" by simp
  have fin: "\<forall>r \<in> set tbl. score_anomaly r = Some (Fin (score_val r))"
    unfolding st d by (auto simp: flag_fields validos_score)
  have stats: "mediana = Fin (median (scores_validos df))
      \<and> mad = Fin (calcula_mad (scores_validos df))
      \<and> limite = Fin (if calcula_mad (scores_validos df) = 0
                       then median (scores_validos df)
                       else median (scores_validos df)
                            + sigma * calcula_mad (scores_validos df))"
    using detectar_anomalias_partes(1-3) [OF assms False] by blast
  have excl: "cd_opr t \<noteq> cd_opr r"
    if dist: "distinct (map cd_opr df)" and r: "r \<in> set df" "\<not> is_fin (score r)"
      and tt: "t \<in> set tbl" for r t
  proof
    assume eq: "cd_opr t = cd_opr r"
    from tt have "cd_opr t \<in> set (map cd_opr tbl)" by simp
    then have "cd_opr t \<in> set (map cd_opr (filter (\<lambda>r. is_fin (score r)) df))"
      using ops by (metis set_mset_mset)
    then obtain r' where r': "r' \<in> set df" "is_fin (score r')" "cd_opr r' = cd_opr t"
      by auto
    from dist have "inj_on cd_opr (set df)" by (simp add: distinct_map)
    with r(1) r'(1,3) eq have "r' = r" by (auto dest: inj_onD)
    with r(2) r'(2) show False by simp
  qed
  from ops sc fin stats excl show ?thesis by blast
qed

theorem scores_invalidos_excluidos_witness:
  "score \<lparr>cd_opr = ''A'', autocorr_max_diff = Fin 1, autocorr_lag = 1, cv = PInf,
     score_anomaly = None, anormal = None\<rparr> = PInf
   \<and> map cd_opr (fst (snd (detectar_anomalias
     [\<lparr>cd_opr = ''A'', autocorr_max_diff = Fin 1, autocorr_lag = 1, cv = PInf,
     score_anomaly = None, anormal = None\<rparr>,
    \<lparr>cd_opr = ''B'', autocorr_max_diff = Fin (1 / 2), autocorr_lag = 1, cv = Fin 10,
     score_anomaly = None, anormal = None\<rparr>,
    \<lparr>cd_opr = ''C'', autocorr_max_diff = Fin (1 / 2), autocorr_lag = 2, cv = Fin 20,
     score_anomaly = None, anormal = None\<rparr>,
    \<lparr>cd_opr = ''D'', autocorr_max_diff = Fin (1 / 2), autocorr_lag = 3, cv = Fin 2000,
     score_anomaly = None, anormal = None\<rparr>] 3))) = [''D'', ''C'', ''B'']
   \<and> ''A'' \<notin> cd_opr ` set (fst (snd (detectar_anomalias
     [\<lparr>cd_opr = ''A'', autocorr_max_diff = Fin 1, autocorr_lag = 1, cv = PInf,
     score_anomaly = None, anormal = None\<rparr>,
    \<lparr>cd_opr = ''B'', autocorr_max_diff = Fin (1 / 2), autocorr_lag = 1, cv = Fin 10,
     score_anomaly = None, anormal = None\<rparr>,
    \<lparr>cd_opr = ''C'', autocorr_max_diff = Fin (1 / 2), autocorr_lag = 2, cv = Fin 20,
     score_anomaly = None, anormal = None\<rparr>,
    \<lparr>cd_opr = ''D'', autocorr_max_diff = Fin (1 / 2), autocorr_lag = 3, cv = Fin 2000,
     score_anomaly = None, anormal = None\<rparr>] 3)))
   \<and> fst (snd (snd (detectar_anomalias
     [\<lparr>cd_opr = ''A'', autocorr_max_diff = Fin 1, autocorr_lag = 1, cv = PInf,
     score_anomaly = None, anormal = None\<rparr>,
    \<lparr>cd_opr = ''B'', autocorr_max_diff = Fin (1 / 2), autocorr_lag = 1, cv = Fin 10,
     score_anomaly = None, anormal = None\<rparr>,
    \<lparr>cd_opr = ''C'', autocorr_max_diff = Fin (1 / 2), autocorr_lag = 2, cv = Fin 20,
     score_anomaly = None, anormal = None\<rparr>,
    \<lparr>cd_opr = ''D'', autocorr_max_diff = Fin (1 / 2), autocorr_lag = 3, cv = Fin 2000,
     score_anomaly = None, anormal = None\<rparr>] 3))) = Fin (median [5, 10, 1000])"
proof -
  let ?a = "\<lparr>cd_opr = ''A'', autocorr_max_diff = Fin 1, autocorr_lag = 1, cv = PInf,
     score_anomaly = None, anormal = None\<rparr>"
  let ?T = "[\<lparr>cd_opr = ''A'', autocorr_max_diff = Fin 1, autocorr_lag = 1, cv = PInf,
     score_anomaly = None, anormal = None\<rparr>,
    \<lparr>cd_opr = ''B'', autocorr_max_diff = Fin (1 / 2), autocorr_lag = 1, cv = Fin 10,
     score_anomaly = None, anormal = None\<rparr>,
    \<lparr>cd_opr = ''C'', autocorr_max_diff = Fin (1 / 2), autocorr_lag = 2, cv = Fin 20,
     score_anomaly = None, anormal = None\<rparr>,
    \<lparr>cd_opr = ''D'', autocorr_max_diff = Fin (1 / 2), autocorr_lag = 3, cv = Fin 2000,
     score_anomaly = None, anormal = None\<rparr>]"
  let ?tbl = "[\<lparr>cd_opr = ''D'', autocorr_max_diff = Fin (1 / 2), autocorr_lag = 3, cv = Fin 2000,
     score_anomaly = Some (Fin 1000), anormal = Some True\<rparr>,
    \<lparr>cd_opr = ''C'', autocorr_max_diff = Fin (1 / 2), autocorr_lag = 2, cv = Fin 20,
     score_anomaly = Some (Fin 10), anormal = Some False\<rparr>,
    \<lparr>cd_opr = ''B'', autocorr_max_diff = Fin (1 / 2), autocorr_lag = 1, cv = Fin 10,
     score_anomaly = Some (Fin 5), anormal = Some False\<rparr>]"
  have inf: "score ?a = PInf" by (simp add: score_def inf_signed_def)
  then have nf: "\<not> is_fin (score ?a)" by (simp add: is_fin_def)
  have dist: "distinct (map cd_opr ?T)" by simp
  have mem: "?a \<in> set ?T" by simp
  from scores_invalidos_excluidos [OF exemplo_detectar] dist
  have "\<forall>r \<in> set ?T. \<not> is_fin (score r) \<longrightarrow> (\<forall>t \<in> set ?tbl. cd_opr t \<noteq> cd_opr r)"
    and "scores_validos ?T \<noteq> [] \<longrightarrow> Fin 10 = Fin (median (scores_validos ?T))"
    by blast+
  with mem nf have "\<forall>t \<in> set ?tbl. cd_opr t \<noteq> cd_opr ?a"
    and "Fin 10 = Fin (median [5, 10, 1000])"
    by (blast, simp add: exemplo_scores)
  then have "''A'' \<notin> cd_opr ` set ?tbl" and "Fin 10 = Fin (median [5, 10, 1000])"
    by auto
  with inf show ?thesis by (simp add: exemplo_detectar)
qed

text \<open>
  Claim C7. In \<open>detectar_anomalias\<close>, when the MAD of the valid scores is 0, every
  \<open>anormal\<close> flag of the returned table is False and the returned limit is the median
  itself; otherwise the limit is median + sigma_threshold * MAD and a row is flagged exactly
  when its score is strictly greater than the limit. (Without any valid score the table is
  empty and the three statistics are NaN.)
\<close>

theorem limite_e_classificacao:
  assumes "detectar_anomalias df sigma = (df', tbl, mediana, mad, limite)"
  shows "(scores_validos df = [] \<longrightarrow> tbl = [] \<and> mediana = NaN \<and> mad = NaN \<and> limite = NaN)
     \<and> (scores_validos df \<noteq> [] \<longrightarrow>
          mediana = Fin (median (scores_validos df))
          \<and> mad = Fin (calcula_mad (scores_validos df))
          \<and> (mad = Fin 0 \<longrightarrow>
                limite = mediana \<and> (\<forall>r \<in> set tbl. anormal r = Some False))
          \<and> (mad \<noteq> Fin 0 \<longrightarrow>
                limite = Fin (median (scores_validos df)
                              + sigma * calcula_mad (scores_validos df))
                \<and> (\<forall>r \<in> set tbl.
                      anormal r = Some (score_val r > median (scores_validos df)
                                          + sigma * calcula_mad (scores_validos df)))))"
proof (cases "scores_validos df = []")
  case True
  then have "validos df = []" by (simp add: validos_Nil_iff)
  from assms [unfolded detectar_anomalias_sem_validos [OF this]] True
  show ?thesis by simp
next
  case False
  let ?med = "median (scores_validos df)" and ?mad = "calcula_mad (scores_validos df)"
  have med: "mediana = Fin ?med" and mad: "mad = Fin ?mad"
    and lim: "limite = Fin (if ?mad = 0 then ?med else ?med + sigma * ?mad)"
    and d: "df' = map (\<lambda>r. r\<lparr>anormal := Some (?mad \<noteq> 0
                   \<and> score_val r > ?med + sigma * ?mad)\<rparr>) (validos df)"
    and t: "tbl = sort_key (\<lambda>r. - score_val r) df'"
    using assms False by (rule detectar_anomalias_partes)+
  have flags: "\<forall>r \<in> set tbl.
      anormal r = Some (?mad \<noteq> 0 \<and> score_val r > ?med + sigma * ?mad)"
    unfolding t d by (auto simp: flag_fields)
  show ?thesis
  proof (cases "?mad = 0")
    case True
    with med mad lim flags False show ?thesis by simp
  next
    case nz: False
    with med mad lim flags False show ?thesis by simp
  qed
qed

theorem limite_e_classificacao_witness:
  "calcula_mad (scores_validos
     [\<lparr>cd_opr = ''B'', autocorr_max_diff = Fin (1 / 2), autocorr_lag = 1, cv = Fin 10,
     score_anomaly = None, anormal = None\<rparr>,
    \<lparr>cd_opr = ''C'', autocorr_max_diff = Fin (1 / 2), autocorr_lag = 2, cv = Fin 10,
     score_anomaly = None, anormal = None\<rparr>,
    \<lparr>cd_opr = ''D'', autocorr_max_diff = Fin 1, autocorr_lag = 3, cv = Fin 5,
     score_anomaly = None, anormal = None\<rparr>,
    \<lparr>cd_opr = ''E'', autocorr_max_diff = Fin (1 / 2), autocorr_lag = 4, cv = Fin 2000,
     score_anomaly = None, anormal = None\<rparr>]) = 0
   \<and> map anormal (fst (snd (detectar_anomalias
     [\<lparr>cd_opr = ''B'', autocorr_max_diff = Fin (1 / 2), autocorr_lag = 1, cv = Fin 10,
     score_anomaly = None, anormal = None\<rparr>,
    \<lparr>cd_opr = ''C'', autocorr_max_diff = Fin (1 / 2), autocorr_lag = 2, cv = Fin 10,
     score_anomaly = None, anormal = None\<rparr>,
    \<lparr>cd_opr = ''D'', autocorr_max_diff = Fin 1, autocorr_lag = 3, cv = Fin 5,
     score_anomaly = None, anormal = None\<rparr>,
    \<lparr>cd_opr = ''E'', autocorr_max_diff = Fin (1 / 2), autocorr_lag = 4, cv = Fin 2000,
     score_anomaly = None, anormal = None\<rparr>] 3))) = [Some False, Some False, Some False, Some False]
   \<and> snd (snd (snd (snd (detectar_anomalias
     [\<lparr>cd_opr = ''B'', autocorr_max_diff = Fin (1 / 2), autocorr_lag = 1, cv = Fin 10,
     score_anomaly = None, anormal = None\<rparr>,
    \<lparr>cd_opr = ''C'', autocorr_max_diff = Fin (1 / 2), autocorr_lag = 2, cv = Fin 10,
     score_anomaly = None, anormal = None\<rparr>,
    \<lparr>cd_opr = ''D'', autocorr_max_diff = Fin 1, autocorr_lag = 3, cv = Fin 5,
     score_anomaly = None, anormal = None\<rparr>,
    \<lparr>cd_opr = ''E'', autocorr_max_diff = Fin (1 / 2), autocorr_lag = 4, cv = Fin 2000,
     score_anomaly = None, anormal = None\<rparr>] 3)))) = Fin (median [5, 5, 5, 1000])
   \<and> calcula_mad (scores_validos
     [\<lparr>cd_opr = ''A'', autocorr_max_diff = Fin 1, autocorr_lag = 1, cv = PInf,
     score_anomaly = None, anormal = None\<rparr>,
    \<lparr>cd_opr = ''B'', autocorr_max_diff = Fin (1 / 2), autocorr_lag = 1, cv = Fin 10,
     score_anomaly = None, anormal = None\<rparr>,
    \<lparr>cd_opr = ''C'', autocorr_max_diff = Fin (1 / 2), autocorr_lag = 2, cv = Fin 20,
     score_anomaly = None, anormal = None\<rparr>,
    \<lparr>cd_opr = ''D'', autocorr_max_diff = Fin (1 / 2), autocorr_lag = 3, cv = Fin 2000,
     score_anomaly = None, anormal = None\<rparr>]) \<noteq> 0
   \<and> map anormal (fst (snd (detectar_anomalias
     [\<lparr>cd_opr = ''A'', autocorr_max_diff = Fin 1, autocorr_lag = 1, cv = PInf,
     score_anomaly = None, anormal = None\<rparr>,
    \<lparr>cd_opr = ''B'', autocorr_max_diff = Fin (1 / 2), autocorr_lag = 1, cv = Fin 10,
     score_anomaly = None, anormal = None\<rparr>,
    \<lparr>cd_opr = ''C'', autocorr_max_diff = Fin (1 / 2), autocorr_lag = 2, cv = Fin 20,
     score_anomaly = None, anormal = None\<rparr>,
    \<lparr>cd_opr = ''D'', autocorr_max_diff = Fin (1 / 2), autocorr_lag = 3, cv = Fin 2000,
     score_anomaly = None, anormal = None\<rparr>] 3))) = [Some True, Some False, Some False]
   \<and> snd (snd (snd (snd (detectar_anomalias
     [\<lparr>cd_opr = ''A'', autocorr_max_diff = Fin 1, autocorr_lag = 1, cv = PInf,
     score_anomaly = None, anormal = None\<rparr>,
    \<lparr>cd_opr = ''B'', autocorr_max_diff = Fin (1 / 2), autocorr_lag = 1, cv = Fin 10,
     score_anomaly = None, anormal = None\<rparr>,
    \<lparr>cd_opr = ''C'', autocorr_max_diff = Fin (1 / 2), autocorr_lag = 2, cv = Fin 20,
     score_anomaly = None, anormal = None\<rparr>,
    \<lparr>cd_opr = ''D'', autocorr_max_diff = Fin (1 / 2), autocorr_lag = 3, cv = Fin 2000,
     score_anomaly = None, anormal = None\<rparr>] 3)))) = Fin (median [5, 10, 1000] + 3 * calcula_mad [5, 10, 1000])"
proof -
  let ?U = "[\<lparr>cd_opr = ''B'', autocorr_max_diff = Fin (1 / 2), autocorr_lag = 1, cv = Fin 10,
     score_anomaly = None, anormal = None\<rparr>,
    \<lparr>cd_opr = ''C'', autocorr_max_diff = Fin (1 / 2), autocorr_lag = 2, cv = Fin 10,
     score_anomaly = None, anormal = None\<rparr>,
    \<lparr>cd_opr = ''D'', autocorr_max_diff = Fin 1, autocorr_lag = 3, cv = Fin 5,
     score_anomaly = None, anormal = None\<rparr>,
    \<lparr>cd_opr = ''E'', autocorr_max_diff = Fin (1 / 2), autocorr_lag = 4, cv = Fin 2000,
     score_anomaly = None, anormal = None\<rparr>]"
  let ?T = "[\<lparr>cd_opr = ''A'', autocorr_max_diff = Fin 1, autocorr_lag = 1, cv = PInf,
     score_anomaly = None, anormal = None\<rparr>,
    \<lparr>cd_opr = ''B'', autocorr_max_diff = Fin (1 / 2), autocorr_lag = 1, cv = Fin 10,
     score_anomaly = None, anormal = None\<rparr>,
    \<lparr>cd_opr = ''C'', autocorr_max_diff = Fin (1 / 2), autocorr_lag = 2, cv = Fin 20,
     score_anomaly = None, anormal = None\<rparr>,
    \<lparr>cd_opr = ''D'', autocorr_max_diff = Fin (1 / 2), autocorr_lag = 3, cv = Fin 2000,
     score_anomaly = None, anormal = None\<rparr>]"
  have m0: "calcula_mad (scores_validos ?U) = 0"
    by (simp add: exemplo_scores_mad0 exemplo_mad0)
  have m1: "calcula_mad (scores_validos ?T) \<noteq> 0"
    by (simp add: exemplo_scores exemplo_mad mad_c_def)
  have n0: "scores_validos ?U \<noteq> []" by (simp add: exemplo_scores_mad0)
  have n1: "scores_validos ?T \<noteq> []" by (simp add: exemplo_scores)
  have z1: "Fin (5 / mad_c) \<noteq> Fin 0" by (simp add: mad_c_def)
  from limite_e_classificacao [OF exemplo_detectar_mad0] n0
  have "Fin 5 = Fin (median (scores_validos ?U))" by blast
  then have l0: "Fin 5 = Fin (median [5, 5, 5, 1000])"
    by (simp only: exemplo_scores_mad0)
  from limite_e_classificacao [OF exemplo_detectar] n1 z1
  have "Fin (10 + 3 * (5 / mad_c))
      = Fin (median (scores_validos ?T) + 3 * calcula_mad (scores_validos ?T))"
    by blast
  then have l1: "Fin (10 + 3 * (5 / mad_c))
      = Fin (median [5, 10, 1000] + 3 * calcula_mad [5, 10, 1000])"
    by (simp only: exemplo_scores)
  show ?thesis
    unfolding exemplo_detectar exemplo_detectar_mad0 fst_conv snd_conv
    using m0 m1 l0 l1 by simp
qed

text \<open>
  Claim C9. A call of \<open>detectar_anomalias\<close> on a non-empty metric table changes the
  caller's table: afterwards it has a score in every row, no infinite value in the columns
  \<open>cv\<close>, \<open>autocorr_max_diff\<close> and \<open>score_anomaly\<close>, and only the rows whose
  score is finite, in their order; a table that had no score column is therefore not
  left as it was.
\<close>

theorem tabela_de_entrada_alterada:
  assumes "detectar_anomalias df sigma = (df', tbl, mediana, mad, limite)" and "df \<noteq> []"
  shows "map cd_opr df' = map cd_opr (filter (\<lambda>r. is_fin (score r)) df)
     \<and> map (\<lambda>r. (autocorr_max_diff r, autocorr_lag r, cv r, score_anomaly r)) df'
         = map (\<lambda>r. (replace_inf (autocorr_max_diff r), autocorr_lag r, replace_inf (cv r),
                       Some (replace_inf (score r))))
             (filter (\<lambda>r. is_fin (score r)) df)
     \<and> (\<forall>r \<in> set df'. score_anomaly r = Some (Fin (score_val r))
            \<and> cv r \<noteq> PInf \<and> cv r \<noteq> NInf
            \<and> autocorr_max_diff r \<noteq> PInf \<and> autocorr_max_diff r \<noteq> NInf)
     \<and> ((\<forall>r \<in> set df. score_anomaly r = None) \<longrightarrow> df' \<noteq> df)"
proof (cases "scores_validos df = []")
  case True
  have d: "df' = []" using assms(1) True by (rule detectar_anomalias_partes_vazio)
  have "map score_val (map pontuar (filter (\<lambda>r. is_fin (score r)) df)) = []"
    using True unfolding score_val_validos [symmetric] validos_filter .
  then have "filter (\<lambda>r. is_fin (score r)) df = []" by simp
  with d assms(2) show ?thesis by simp
next
  case False
  let ?flag = "\<lambda>r. r\<lparr>anormal := Some (calcula_mad (scores_validos df) \<noteq> 0
                   \<and> score_val r > median (scores_validos df)
                                     + sigma * calcula_mad (scores_validos df))\<rparr>"
  have d: "df' = map ?flag (validos df)"
    using assms(1) False by (rule detectar_anomalias_partes)
  have ops: "map cd_opr df' = map cd_opr (filter (\<lambda>r. is_fin (score r)) df)"
    unfolding d validos_filter by (simp add: comp_def flag_fields pontuar_fields)
  have cols: "map (\<lambda>r. (autocorr_max_diff r, autocorr_lag r, cv r, score_anomaly r)) df'
         = map (\<lambda>r. (replace_inf (autocorr_max_diff r), autocorr_lag r, replace_inf (cv r),
                       Some (replace_inf (score r))))
             (filter (\<lambda>r. is_fin (score r)) df)"
    unfolding d validos_filter by (simp add: comp_def pontuar_fields)
  have rows: "score_anomaly r = Some (Fin (score_val r))
      \<and> cv r \<noteq> PInf \<and> cv r \<noteq> NInf
      \<and> autocorr_max_diff r \<noteq> PInf \<and> autocorr_max_diff r \<noteq> NInf"
    if "r \<in> set df'" for r
  proof -
    from that obtain v where v: "v \<in> set (validos df)" "r = ?flag v"
      unfolding d by auto
    from v(1) obtain r0 where r0: "v = pontuar r0" by (auto simp: validos_filter)
    from validos_score [OF v(1)] v(2) have "score_anomaly r = Some (Fin (score_val r))"
      by (simp add: flag_fields)
    moreover from v(2) r0 have "cv r = replace_inf (cv r0)"
      and "autocorr_max_diff r = replace_inf (autocorr_max_diff r0)"
      by (simp_all add: pontuar_fields)
    ultimately show ?thesis by (simp add: replace_inf_not_inf)
  qed
  have changed: "df' \<noteq> df" if none: "\<forall>r \<in> set df. score_anomaly r = None"
  proof
    assume eq: "df' = df"
    from assms(2) obtain r where r: "r \<in> set df" by (cases df) auto
    with eq rows have "score_anomaly r = Some (Fin (score_val r))" by blast
    with none r show False by simp
  qed
  from ops cols rows changed show ?thesis by blast
qed


theorem tabela_de_entrada_alterada_witness:
  "[\<lparr>cd_opr = ''A'', autocorr_max_diff = Fin 1, autocorr_lag = 1, cv = PInf,
     score_anomaly = None, anormal = None\<rparr>,
    \<lparr>cd_opr = ''B'', autocorr_max_diff = Fin (1 / 2), autocorr_lag = 1, cv = Fin 10,
     score_anomaly = None, anormal = None\<rparr>,
    \<lparr>cd_opr = ''C'', autocorr_max_diff = Fin (1 / 2), autocorr_lag = 2, cv = Fin 20,
     score_anomaly = None, anormal = None\<rparr>,
    \<lparr>cd_opr = ''D'', autocorr_max_diff = Fin (1 / 2), autocorr_lag = 3, cv = Fin 2000,
     score_anomaly = None, anormal = None\<rparr>] \<noteq> []
   \<and> fst (detectar_anomalias
     [\<lparr>cd_opr = ''A'', autocorr_max_diff = Fin 1, autocorr_lag = 1, cv = PInf,
     score_anomaly = None, anormal = None\<rparr>,
    \<lparr>cd_opr = ''B'', autocorr_max_diff = Fin (1 / 2), autocorr_lag = 1, cv = Fin 10,
     score_anomaly = None, anormal = None\<rparr>,
    \<lparr>cd_opr = ''C'', autocorr_max_diff = Fin (1 / 2), autocorr_lag = 2, cv = Fin 20,
     score_anomaly = None, anormal = None\<rparr>,
    \<lparr>cd_opr = ''D'', autocorr_max_diff = Fin (1 / 2), autocorr_lag = 3, cv = Fin 2000,
     score_anomaly = None, anormal = None\<rparr>] 3)
     = [\<lparr>cd_opr = ''B'', autocorr_max_diff = Fin (1 / 2), autocorr_lag = 1, cv = Fin 10,
     score_anomaly = Some (Fin 5), anormal = Some False\<rparr>,
    \<lparr>cd_opr = ''C'', autocorr_max_diff = Fin (1 / 2), autocorr_lag = 2, cv = Fin 20,
     score_anomaly = Some (Fin 10), anormal = Some False\<rparr>,
    \<lparr>cd_opr = ''D'', autocorr_max_diff = Fin (1 / 2), autocorr_lag = 3, cv = Fin 2000,
     score_anomaly = Some (Fin 1000), anormal = Some True\<rparr>]
   \<and> fst (detectar_anomalias
     [\<lparr>cd_opr = ''A'', autocorr_max_diff = Fin 1, autocorr_lag = 1, cv = PInf,
     score_anomaly = None, anormal = None\<rparr>,
    \<lparr>cd_opr = ''B'', autocorr_max_diff = Fin (1 / 2), autocorr_lag = 1, cv = Fin 10,
     score_anomaly = None, anormal = None\<rparr>,
    \<lparr>cd_opr = ''C'', autocorr_max_diff = Fin (1 / 2), autocorr_lag = 2, cv = Fin 20,
     score_anomaly = None, anormal = None\<rparr>,
    \<lparr>cd_opr = ''D'', autocorr_max_diff = Fin (1 / 2), autocorr_lag = 3, cv = Fin 2000,
     score_anomaly = None, anormal = None\<rparr>] 3)
     \<noteq> [\<lparr>cd_opr = ''A'', autocorr_max_diff = Fin 1, autocorr_lag = 1, cv = PInf,
     score_anomaly = None, anormal = None\<rparr>,
    \<lparr>cd_opr = ''B'', autocorr_max_diff = Fin (1 / 2), autocorr_lag = 1, cv = Fin 10,
     score_anomaly = None, anormal = None\<rparr>,
    \<lparr>cd_opr = ''C'', autocorr_max_diff = Fin (1 / 2), autocorr_lag = 2, cv = Fin 20,
     score_anomaly = None, anormal = None\<rparr>,
    \<lparr>cd_opr = ''D'', autocorr_max_diff = Fin (1 / 2), autocorr_lag = 3, cv = Fin 2000,
     score_anomaly = None, anormal = None\<rparr>]"
proof -
  let ?T = "[\<lparr>cd_opr = ''A'', autocorr_max_diff = Fin 1, autocorr_lag = 1, cv = PInf,
     score_anomaly = None, anormal = None\<rparr>,
    \<lparr>cd_opr = ''B'', autocorr_max_diff = Fin (1 / 2), autocorr_lag = 1, cv = Fin 10,
     score_anomaly = None, anormal = None\<rparr>,
    \<lparr>cd_opr = ''C'', autocorr_max_diff = Fin (1 / 2), autocorr_lag = 2, cv = Fin 20,
     score_anomaly = None, anormal = None\<rparr>,
    \<lparr>cd_opr = ''D'', autocorr_max_diff = Fin (1 / 2), autocorr_lag = 3, cv = Fin 2000,
     score_anomaly = None, anormal = None\<rparr>]"
  let ?df' = "[\<lparr>cd_opr = ''B'', autocorr_max_diff = Fin (1 / 2), autocorr_lag = 1, cv = Fin 10,
     score_anomaly = Some (Fin 5), anormal = Some False\<rparr>,
    \<lparr>cd_opr = ''C'', autocorr_max_diff = Fin (1 / 2), autocorr_lag = 2, cv = Fin 20,
     score_anomaly = Some (Fin 10), anormal = Some False\<rparr>,
    \<lparr>cd_opr = ''D'', autocorr_max_diff = Fin (1 / 2), autocorr_lag = 3, cv = Fin 2000,
     score_anomaly = Some (Fin 1000), anormal = Some True\<rparr>]"
  have ne: "?T \<noteq> []" by simp
  have none: "\<forall>r \<in> set ?T. score_anomaly r = None" by simp
  from tabela_de_entrada_alterada [OF exemplo_detectar ne] none
  have "?df' \<noteq> ?T" by blast
  with ne show ?thesis by (simp only: exemplo_detectar fst_conv) simp
qed

end
